theory Spec2Isabelle
  imports Complex_Main "HOL-Library.Word" "HOL-Library.Log_Nat"
begin

section \<open>The build-rule file: the packaging target \<open>lib\<close>\<close>

text \<open>
  The build file declares one target, \<open>lib\<close>, through the macro
  \<open>py_library_providing_imports_info\<close>. Its \<open>deps\<close> attribute is the list
  \<open>["//jax:version"] + select({...})\<close>. A configuration is the list of the
  \<open>config_setting\<close> labels that hold in the build.
\<close>

type_synonym label = string

datatype build_error = NoMatchingConditions | AmbiguousConditions

text \<open>
  Modelled from the spec: \<open>select\<close> is a primitive of the build system and is not part of
  the sources. The spec's contract (``a conditional set of native-extension dependencies
  selected by a build flag'') is read as the build system documents it: the branch whose
  condition holds is chosen, \<open>//conditions:default\<close> is chosen when none holds, no default
  and no match is an error. Two matching conditions are taken as an error (the build system
  also accepts them when one specialises the other; the file has one condition only).
\<close>

definition select :: "label list \<Rightarrow> (label \<times> label list) list \<Rightarrow> build_error + label list" where
  "select cfg branches =
     (case filter (\<lambda>(c, v). c \<noteq> ''//conditions:default'' \<and> c \<in> set cfg) branches of
        [] \<Rightarrow> (case map_of branches ''//conditions:default'' of
                 None \<Rightarrow> Inl NoMatchingConditions
               | Some v \<Rightarrow> Inr v)
      | [(c, v)] \<Rightarrow> Inr v
      | _ \<Rightarrow> Inl AmbiguousConditions)"

record py_target =
  name :: string
  srcs :: "string list"
  deps :: "label list"

text \<open>
  Modelled from the spec: the macro \<open>py_library_providing_imports_info\<close> is loaded from
  \<open>//jaxlib:jax.bzl\<close>, which is not part of the sources. The spec describes the target as
  ``exposing a fixed set of source files and a conditional set of native-extension
  dependencies'', so the macro hands \<open>name\<close>, \<open>srcs\<close> and \<open>deps\<close> to the library rule as
  they are written. (\<open>lib_rule\<close> and \<open>visibility\<close> do not bear on the dependencies.)
\<close>

definition py_library_providing_imports_info ::
    "string \<Rightarrow> string list \<Rightarrow> build_error + label list \<Rightarrow> build_error + py_target" where
  "py_library_providing_imports_info n ss ds =
     (case ds of
        Inl e \<Rightarrow> Inl e
      | Inr d \<Rightarrow> Inr \<lparr>name = n, srcs = ss, deps = d\<rparr>)"

definition lib :: "label list \<Rightarrow> build_error + py_target" where
  "lib cfg =
     py_library_providing_imports_info ''lib''
       [''__init__.py'', ''mlir/__init__.py'', ''mlir/dialects/__init__.py'']
       (case select cfg
               [(''//jax:enable_jaxlib_build'',
                  [''//jaxlib'',
                   ''//jaxlib:cpu_feature_guard'',
                   ''//jaxlib:utils'',
                   ''//jaxlib/mlir:builtin_dialect'',
                   ''//jaxlib/mlir:chlo_dialect'',
                   ''//jaxlib/mlir:func_dialect'',
                   ''//jaxlib/mlir:ir'',
                   ''//jaxlib/mlir:mhlo_dialect'',
                   ''//jaxlib/mlir:ml_program_dialect'',
                   ''//jaxlib/mlir:pass_manager'',
                   ''//jaxlib/mlir:sparse_tensor_dialect'',
                   ''//jaxlib/mlir:stablehlo_dialect'']),
                (''//conditions:default'', [])] of
          Inl e \<Rightarrow> Inl e
        | Inr sel \<Rightarrow> Inr ([''//jax:version''] @ sel))"

text \<open>The dependency list of the target, and the test for a label of the package
  \<open>//jaxlib/mlir\<close>.\<close>

definition lib_deps :: "label list \<Rightarrow> build_error + label list" where
  "lib_deps cfg = (case lib cfg of Inl e \<Rightarrow> Inl e | Inr t \<Rightarrow> Inr (deps t))"

definition is_mlir_target :: "label \<Rightarrow> bool" where
  "is_mlir_target d = (take 14 d = ''//jaxlib/mlir:'')"

definition count_mlir_deps :: "label list \<Rightarrow> nat" where
  "count_mlir_deps cfg =
     (case lib_deps cfg of Inl e \<Rightarrow> 0 | Inr ds \<Rightarrow> length (filter is_mlir_target ds))"

section \<open>Arrays and the convolution snippets\<close>

text \<open>
  The notebooks run on the array library; its primitives are not part of the sources.
  Errors are values. In this section array elements are taken from an arbitrary semiring,
  so arithmetic is exact: the rounding of 32-bit floats is not part of it (the \<open>float32\<close>
  format is modelled with the Haiku snippets, further down).
\<close>

datatype py_error =
    TypeError
  | ValueError
  | IndexError
  | OverflowError
  | UnexpectedTracerError
  | ConcretizationTypeError string nat "string list"

text \<open>Python's \<open>range(a, b)\<close> and the slice \<open>xs[a:b]\<close> (negative bounds count from the end,
  bounds are clamped to the length).\<close>

definition py_range :: "int \<Rightarrow> int \<Rightarrow> int list" where
  "py_range a b = [a..b - 1]"

definition slice_bound :: "nat \<Rightarrow> int \<Rightarrow> nat" where
  "slice_bound n a = (if a < 0 then nat (max (a + int n) 0) else min (nat a) n)"

definition py_slice :: "'a list \<Rightarrow> int \<Rightarrow> int \<Rightarrow> 'a list" where
  "py_slice xs a b =
     (let lo = slice_bound (length xs) a; hi = slice_bound (length xs) b
      in take (hi - lo) (drop lo xs))"

text \<open>
  Modelled from the spec: \<open>jnp.arange\<close> and \<open>jnp.dot\<close> are primitives of the array library
  (the spec calls its semantics NumPy-compatible and leaves them to the framework).
  \<open>arange(n)\<close> is \<open>0, ..., n - 1\<close>; \<open>dot\<close> of two one-dimensional arrays is the sum of the
  products and a \<open>TypeError\<close> when the lengths differ.
\<close>

definition arange :: "nat \<Rightarrow> 'a::semiring_1 list" where
  "arange n = map of_nat [0..<n]"

definition dot :: "'a::semiring_0 list \<Rightarrow> 'a list \<Rightarrow> py_error + 'a" where
  "dot a b = (if length a = length b then Inr (sum_list (map2 (*) a b)) else Inl TypeError)"

text \<open>
  \<^verbatim>\<open>
  def convolve(x, w):
    output = []
    for i in range(1, len(x)-1):
      output.append(jnp.dot(x[i-1:i+2], w))
    return jnp.array(output)
  \<close>
  The loop is a recursion over the indices with the list \<open>output\<close> as accumulator;
  \<open>jnp.array\<close> of a list of scalars is the one-dimensional array of its elements.
\<close>

fun convolve_loop :: "'a::semiring_0 list \<Rightarrow> 'a list \<Rightarrow> int list \<Rightarrow> 'a list \<Rightarrow> py_error + 'a list" where
  "convolve_loop x w [] output = Inr output"
| "convolve_loop x w (i # idx) output =
     (case dot (py_slice x (i - 1) (i + 2)) w of
        Inl e \<Rightarrow> Inl e
      | Inr d \<Rightarrow> convolve_loop x w idx (output @ [d]))"

definition convolve :: "'a::semiring_0 list \<Rightarrow> 'a list \<Rightarrow> py_error + 'a list" where
  "convolve x w = convolve_loop x w (py_range 1 (int (length x) - 1)) []"

text \<open>
  A two-dimensional array is the list of its rows together with the number of columns,
  which an array with no rows still has (shape \<open>(0, n)\<close>). It is well formed when every
  row has that many entries.
\<close>

record 'a array2 =
  ncols :: nat
  rows :: "'a list list"

definition wf_array2 :: "'a array2 \<Rightarrow> bool" where
  "wf_array2 m = list_all (\<lambda>r. length r = ncols m) (rows m)"




definition broadcast_dim :: "nat \<Rightarrow> nat \<Rightarrow> nat option" where
  "broadcast_dim a b =
     (if a = b then Some a else if a = 1 then Some b else if b = 1 then Some a else None)"

definition stretch :: "nat \<Rightarrow> 'a list \<Rightarrow> 'a list" where
  "stretch n xs = (if length xs = n then xs else replicate n (hd xs))"

definition broadcast2 :: "('a \<Rightarrow> 'a \<Rightarrow> 'a) \<Rightarrow> 'a array2 \<Rightarrow> 'a array2 \<Rightarrow> py_error + 'a array2" where
  "broadcast2 op a b =
     (case (broadcast_dim (length (rows a)) (length (rows b)), broadcast_dim (ncols a) (ncols b)) of
        (Some r, Some c) \<Rightarrow>
          Inr \<lparr>ncols = c,
               rows = map2 (\<lambda>ra rb. map2 op (stretch c ra) (stretch c rb))
                        (stretch r (rows a)) (stretch r (rows b))\<rparr>
      | _ \<Rightarrow> Inl TypeError)"










section \<open>Properties of the build rule\<close>

lemma lib_deps_enabled:
  assumes "''//jax:enable_jaxlib_build'' \<in> set cfg"
  shows "lib_deps cfg =
     Inr [''//jax:version'',
          ''//jaxlib'',
          ''//jaxlib:cpu_feature_guard'',
          ''//jaxlib:utils'',
          ''//jaxlib/mlir:builtin_dialect'',
          ''//jaxlib/mlir:chlo_dialect'',
          ''//jaxlib/mlir:func_dialect'',
          ''//jaxlib/mlir:ir'',
          ''//jaxlib/mlir:mhlo_dialect'',
          ''//jaxlib/mlir:ml_program_dialect'',
          ''//jaxlib/mlir:pass_manager'',
          ''//jaxlib/mlir:sparse_tensor_dialect'',
          ''//jaxlib/mlir:stablehlo_dialect'']"
  using assms
  by (simp add: lib_deps_def lib_def select_def py_library_providing_imports_info_def)

lemma lib_deps_disabled:
  assumes "''//jax:enable_jaxlib_build'' \<notin> set cfg"
  shows "lib_deps cfg = Inr [''//jax:version'']"
  using assms
  by (simp add: lib_deps_def lib_def select_def py_library_providing_imports_info_def)

text \<open>
  Claim C1, as amended. With \<open>//jax:enable_jaxlib_build\<close> among the settings that hold,
  the dependencies of \<open>lib\<close> are \<open>//jax:version\<close>, \<open>//jaxlib\<close>, \<open>//jaxlib:cpu_feature_guard\<close>,
  \<open>//jaxlib:utils\<close> and the nine targets of \<open>//jaxlib/mlir\<close> that the file lists;
  without it they are \<open>//jax:version\<close> alone.
\<close>

theorem lib_deps_by_flag:
  "(''//jax:enable_jaxlib_build'' \<in> set cfg \<longrightarrow>
      lib_deps cfg =
        Inr [''//jax:version'',
             ''//jaxlib'',
             ''//jaxlib:cpu_feature_guard'',
             ''//jaxlib:utils'',
             ''//jaxlib/mlir:builtin_dialect'',
             ''//jaxlib/mlir:chlo_dialect'',
             ''//jaxlib/mlir:func_dialect'',
             ''//jaxlib/mlir:ir'',
             ''//jaxlib/mlir:mhlo_dialect'',
             ''//jaxlib/mlir:ml_program_dialect'',
             ''//jaxlib/mlir:pass_manager'',
             ''//jaxlib/mlir:sparse_tensor_dialect'',
             ''//jaxlib/mlir:stablehlo_dialect''] \<and>
      count_mlir_deps cfg = 9) \<and>
   (''//jax:enable_jaxlib_build'' \<notin> set cfg \<longrightarrow>
      lib_deps cfg = Inr [''//jax:version''] \<and> count_mlir_deps cfg = 0)"
proof (intro conjI impI)
  assume on: "''//jax:enable_jaxlib_build'' \<in> set cfg"
  show "lib_deps cfg =
        Inr [''//jax:version'',
             ''//jaxlib'',
             ''//jaxlib:cpu_feature_guard'',
             ''//jaxlib:utils'',
             ''//jaxlib/mlir:builtin_dialect'',
             ''//jaxlib/mlir:chlo_dialect'',
             ''//jaxlib/mlir:func_dialect'',
             ''//jaxlib/mlir:ir'',
             ''//jaxlib/mlir:mhlo_dialect'',
             ''//jaxlib/mlir:ml_program_dialect'',
             ''//jaxlib/mlir:pass_manager'',
             ''//jaxlib/mlir:sparse_tensor_dialect'',
             ''//jaxlib/mlir:stablehlo_dialect'']"
    by (rule lib_deps_enabled [OF on])
  show "count_mlir_deps cfg = 9"
    by (simp add: count_mlir_deps_def lib_deps_enabled [OF on] is_mlir_target_def)
next
  assume off: "''//jax:enable_jaxlib_build'' \<notin> set cfg"
  show "lib_deps cfg = Inr [''//jax:version'']"
    by (rule lib_deps_disabled [OF off])
  show "count_mlir_deps cfg = 0"
    by (simp add: count_mlir_deps_def lib_deps_disabled [OF off] is_mlir_target_def)
qed

theorem lib_deps_by_flag_witness:
  "lib_deps [''//jax:enable_jaxlib_build''] =
        Inr [''//jax:version'',
             ''//jaxlib'',
             ''//jaxlib:cpu_feature_guard'',
             ''//jaxlib:utils'',
             ''//jaxlib/mlir:builtin_dialect'',
             ''//jaxlib/mlir:chlo_dialect'',
             ''//jaxlib/mlir:func_dialect'',
             ''//jaxlib/mlir:ir'',
             ''//jaxlib/mlir:mhlo_dialect'',
             ''//jaxlib/mlir:ml_program_dialect'',
             ''//jaxlib/mlir:pass_manager'',
             ''//jaxlib/mlir:sparse_tensor_dialect'',
             ''//jaxlib/mlir:stablehlo_dialect''] \<and>
   count_mlir_deps [''//jax:enable_jaxlib_build''] = 9 \<and>
   lib_deps [] = Inr [''//jax:version''] \<and>
   count_mlir_deps [] = 0"
  using lib_deps_by_flag [of "[''//jax:enable_jaxlib_build'']"] lib_deps_by_flag [of "[]"]
  by simp

text \<open>
  Claim C1 as stated speaks of eight targets of \<open>//jaxlib/mlir\<close>; with the flag enabled the
  file lists nine.
\<close>

theorem lib_mlir_deps_not_eight:
  "''//jax:enable_jaxlib_build'' \<in> set [''//jax:enable_jaxlib_build''] \<and>
   count_mlir_deps [''//jax:enable_jaxlib_build''] \<noteq> 8"
  by (simp add: count_mlir_deps_def lib_deps_enabled is_mlir_target_def)

section \<open>Properties of the convolution snippets\<close>

text \<open>
  Claim C7. On the recorded inputs \<open>x = arange(5)\<close> and \<open>w = [2, 3, 4]\<close>, \<open>convolve\<close> returns
  the three entries \<open>[11, 20, 29]\<close>, and entry \<open>i\<close> is the dot product of the window
  \<open>x[i:i+3]\<close> with \<open>w\<close>, computed in the integers.
\<close>

theorem convolve_recorded:
  "convolve (arange 5) [2, 3, 4] = Inr [11, 20, 29 :: int] \<and>
   dot (py_slice (arange 5) 0 3) [2, 3, 4] = Inr (11 :: int) \<and>
   dot (py_slice (arange 5) 1 4) [2, 3, 4] = Inr (20 :: int) \<and>
   dot (py_slice (arange 5) 2 5) [2, 3, 4] = Inr (29 :: int)"
  by (simp add: convolve_def arange_def py_range_def upto.simps py_slice_def slice_bound_def
      dot_def upt_rec)





















section \<open>Python values, tracing and \<open>jax.jit\<close>\<close>

text \<open>
  The notebook on just-in-time compilation calls its functions with Python integers, with
  concrete arrays (the results of compiled calls) and, under \<open>jax.jit\<close>, with tracers.
  A Python integer is unbounded; an array scalar is a 32-bit integer (the notebook's
  own transcripts show \<open>i32\<close> and \<open>int32\<close>), whose arithmetic wraps around.
\<close>

type_synonym i32 = "32 word"

text \<open>The operations a trace records (the notebook prints them as a jaxpr): an expression
  over the traced arguments. A trace is named by the function being traced and the line
  of its definition.\<close>

datatype jexpr = Var string | Lit i32 | Add jexpr jexpr | Mul jexpr jexpr

datatype jcond = Lt jexpr jexpr | Gt jexpr jexpr

type_synonym trace = "string \<times> nat"

datatype val = PyInt int | Arr i32 | Tracer trace jexpr

datatype cond = PyBool bool | ArrBool bool | TracerBool trace jcond

datatype operand = Concrete i32 | Traced trace jexpr

definition in_i32 :: "int \<Rightarrow> bool" where
  "in_i32 k = (- (2 ^ 31) \<le> k \<and> k < 2 ^ 31)"

definition to_i32 :: "int \<Rightarrow> py_error + i32" where
  "to_i32 k = (if in_i32 k then Inr (word_of_int k) else Inl OverflowError)"

text \<open>
  Modelled from the spec: the arithmetic and comparison of array values and tracers
  belong to the framework and are not part of the sources. The spec describes tracing as
  ``executing a function once over placeholder values to record the sequence of operations
  performed'', and the notebook adds that a tracer has a shape and a type but no concrete
  value. So an operation with a tracer among its operands records an expression, an
  operation on concrete arrays computes in \<open>int32\<close>, and a Python integer that meets an
  array or a tracer is converted to \<open>int32\<close> first (an \<open>OverflowError\<close> when it does not
  fit). Two tracers of different traces do not mix.
\<close>

fun jax_operand :: "val \<Rightarrow> py_error + operand" where
  "jax_operand (PyInt k) = (case to_i32 k of Inl e \<Rightarrow> Inl e | Inr w \<Rightarrow> Inr (Concrete w))"
| "jax_operand (Arr w) = Inr (Concrete w)"
| "jax_operand (Tracer t e) = Inr (Traced t e)"

fun operand_binop ::
    "(i32 \<Rightarrow> i32 \<Rightarrow> 'r) \<Rightarrow> (trace \<Rightarrow> jexpr \<Rightarrow> jexpr \<Rightarrow> 'r) \<Rightarrow> operand \<Rightarrow> operand \<Rightarrow> py_error + 'r" where
  "operand_binop conc trac (Concrete u) (Concrete v) = Inr (conc u v)"
| "operand_binop conc trac (Traced t a) (Concrete v) = Inr (trac t a (Lit v))"
| "operand_binop conc trac (Concrete u) (Traced t b) = Inr (trac t (Lit u) b)"
| "operand_binop conc trac (Traced t a) (Traced t' b) =
     (if t = t' then Inr (trac t a b) else Inl UnexpectedTracerError)"

definition jax_binop ::
    "(i32 \<Rightarrow> i32 \<Rightarrow> 'r) \<Rightarrow> (trace \<Rightarrow> jexpr \<Rightarrow> jexpr \<Rightarrow> 'r) \<Rightarrow> val \<Rightarrow> val \<Rightarrow> py_error + 'r" where
  "jax_binop conc trac x y =
     (case jax_operand x of
        Inl e \<Rightarrow> Inl e
      | Inr a \<Rightarrow>
          (case jax_operand y of
             Inl e \<Rightarrow> Inl e
           | Inr b \<Rightarrow> operand_binop conc trac a b))"

text \<open>Python's \<open>x + y\<close>, \<open>x * y\<close>, \<open>x < y\<close> and \<open>x > y\<close> on these values.\<close>

fun py_add :: "val \<Rightarrow> val \<Rightarrow> py_error + val" where
  "py_add (PyInt a) (PyInt b) = Inr (PyInt (a + b))"
| "py_add x y = jax_binop (\<lambda>u v. Arr (u + v)) (\<lambda>t a b. Tracer t (Add a b)) x y"

fun py_mul :: "val \<Rightarrow> val \<Rightarrow> py_error + val" where
  "py_mul (PyInt a) (PyInt b) = Inr (PyInt (a * b))"
| "py_mul x y = jax_binop (\<lambda>u v. Arr (u * v)) (\<lambda>t a b. Tracer t (Mul a b)) x y"

fun py_lt :: "val \<Rightarrow> val \<Rightarrow> py_error + cond" where
  "py_lt (PyInt a) (PyInt b) = Inr (PyBool (a < b))"
| "py_lt x y = jax_binop (\<lambda>u v. ArrBool (sint u < sint v)) (\<lambda>t a b. TracerBool t (Lt a b)) x y"

fun py_gt :: "val \<Rightarrow> val \<Rightarrow> py_error + cond" where
  "py_gt (PyInt a) (PyInt b) = Inr (PyBool (a > b))"
| "py_gt x y = jax_binop (\<lambda>u v. ArrBool (sint u > sint v)) (\<lambda>t a b. TracerBool t (Gt a b)) x y"

text \<open>The arguments a recorded expression depends on, in the order they occur.\<close>

fun expr_args :: "jexpr \<Rightarrow> string list" where
  "expr_args (Var x) = [x]"
| "expr_args (Lit w) = []"
| "expr_args (Add a b) = expr_args a @ expr_args b"
| "expr_args (Mul a b) = expr_args a @ expr_args b"

fun cond_args :: "jcond \<Rightarrow> string list" where
  "cond_args (Lt a b) = remdups (expr_args a @ expr_args b)"
| "cond_args (Gt a b) = remdups (expr_args a @ expr_args b)"

text \<open>
  Modelled from the spec: the truth value that \<open>if\<close> and \<open>while\<close> ask for. The spec:
  ``attempting to branch a to-be-compiled function on a value that is not concretely known
  at compile time fails with a concretization error, naming the offending argument and
  call site''. The recorded message names the traced function, the line of its
  definition and the argument the value depends on.
\<close>

fun py_bool :: "cond \<Rightarrow> py_error + bool" where
  "py_bool (PyBool b) = Inr b"
| "py_bool (ArrBool b) = Inr b"
| "py_bool (TracerBool (fname, line) c) = Inl (ConcretizationTypeError fname line (cond_args c))"

text \<open>
  Modelled from the spec: \<open>jax.jit\<close> is not part of the sources. Following the spec (a
  traced representation is ``produced by symbolic execution of a function over abstract
  placeholders, consumed by an external compiler'') and the notebook's account of
  \<open>static_argnums\<close>, a call of a compiled function
  \<^item> binds every argument: a static argument stays the Python value it is (it has to be
    hashable, so it is a Python integer here), any other argument becomes an \<open>int32\<close>
    operand and is replaced by a tracer named after the parameter;
  \<^item> runs the Python function once on these arguments, which yields an error or the
    recorded expression;
  \<^item> evaluates the recorded expression on the operands, in \<open>int32\<close>.
\<close>

fun bind_arg :: "trace \<Rightarrow> string \<times> bool \<Rightarrow> val \<Rightarrow> py_error + val \<times> (string \<times> operand) list" where
  "bind_arg t (x, True) (PyInt k) = Inr (PyInt k, [])"
| "bind_arg t (x, True) v = Inl ValueError"
| "bind_arg t (x, False) v =
     (case jax_operand v of
        Inl e \<Rightarrow> Inl e
      | Inr a \<Rightarrow> Inr (Tracer t (Var x), [(x, a)]))"

fun bind_args ::
    "trace \<Rightarrow> (string \<times> bool) list \<Rightarrow> val list \<Rightarrow> py_error + val list \<times> (string \<times> operand) list" where
  "bind_args t [] [] = Inr ([], [])"
| "bind_args t (p # ps) (v # vs) =
     (case bind_arg t p v of
        Inl e \<Rightarrow> Inl e
      | Inr (a, b) \<Rightarrow>
          (case bind_args t ps vs of
             Inl e \<Rightarrow> Inl e
           | Inr (as, bs) \<Rightarrow> Inr (a # as, b @ bs)))"
| "bind_args t ps vs = Inl TypeError"

fun out_expr :: "trace \<Rightarrow> val \<Rightarrow> py_error + jexpr" where
  "out_expr t (PyInt k) = (case to_i32 k of Inl e \<Rightarrow> Inl e | Inr w \<Rightarrow> Inr (Lit w))"
| "out_expr t (Arr w) = Inr (Lit w)"
| "out_expr t (Tracer t' e) = (if t' = t then Inr e else Inl UnexpectedTracerError)"

fun run_jaxpr :: "(string \<times> operand) list \<Rightarrow> jexpr \<Rightarrow> py_error + operand" where
  "run_jaxpr env (Var x) =
     (case map_of env x of None \<Rightarrow> Inl UnexpectedTracerError | Some a \<Rightarrow> Inr a)"
| "run_jaxpr env (Lit w) = Inr (Concrete w)"
| "run_jaxpr env (Add a b) =
     (case run_jaxpr env a of
        Inl e \<Rightarrow> Inl e
      | Inr u \<Rightarrow>
          (case run_jaxpr env b of
             Inl e \<Rightarrow> Inl e
           | Inr v \<Rightarrow> operand_binop (\<lambda>p q. Concrete (p + q)) (\<lambda>t c d. Traced t (Add c d)) u v))"
| "run_jaxpr env (Mul a b) =
     (case run_jaxpr env a of
        Inl e \<Rightarrow> Inl e
      | Inr u \<Rightarrow>
          (case run_jaxpr env b of
             Inl e \<Rightarrow> Inl e
           | Inr v \<Rightarrow> operand_binop (\<lambda>p q. Concrete (p * q)) (\<lambda>t c d. Traced t (Mul c d)) u v))"

fun operand_val :: "operand \<Rightarrow> val" where
  "operand_val (Concrete w) = Arr w"
| "operand_val (Traced t e) = Tracer t e"

definition jit ::
    "trace \<Rightarrow> (string \<times> bool) list \<Rightarrow> (val list \<Rightarrow> py_error + val) \<Rightarrow> val list \<Rightarrow> py_error + val" where
  "jit t params fn args =
     (case bind_args t params args of
        Inl e \<Rightarrow> Inl e
      | Inr (traced, env) \<Rightarrow>
          (case fn traced of
             Inl e \<Rightarrow> Inl e
           | Inr res \<Rightarrow>
               (case out_expr t res of
                  Inl e \<Rightarrow> Inl e
                | Inr e \<Rightarrow>
                    (case run_jaxpr env e of
                       Inl e' \<Rightarrow> Inl e'
                     | Inr r \<Rightarrow> Inr (operand_val r)))))"

definition jit1 :: "trace \<Rightarrow> string \<times> bool \<Rightarrow> (val \<Rightarrow> py_error + val) \<Rightarrow> val \<Rightarrow> py_error + val" where
  "jit1 t p fn x = jit t [p] (\<lambda>args. fn (args ! 0)) [x]"

definition jit2 ::
    "trace \<Rightarrow> string \<times> bool \<Rightarrow> string \<times> bool \<Rightarrow> (val \<Rightarrow> val \<Rightarrow> py_error + val) \<Rightarrow>
     val \<Rightarrow> val \<Rightarrow> py_error + val" where
  "jit2 t p q fn x y = jit t [p, q] (\<lambda>args. fn (args ! 0) (args ! 1)) [x, y]"

text \<open>The integer a value stands for, and the values a compiled function accepts as an
  \<open>int32\<close> scalar.\<close>

fun int_value :: "val \<Rightarrow> int" where
  "int_value (PyInt k) = k"
| "int_value (Arr w) = sint w"
| "int_value (Tracer t e) = 0"

fun jax_scalar :: "val \<Rightarrow> bool" where
  "jax_scalar (PyInt k) = in_i32 k"
| "jax_scalar (Arr w) = True"
| "jax_scalar (Tracer t e) = False"

text \<open>
  \<^verbatim>\<open>
  def f(x):
    if x > 0:
      return x
    else:
      return 2 * x

  f_jit = jax.jit(f)
  f_jit_correct = jax.jit(f, static_argnums=0)
  \<close>
\<close>

definition f :: "val \<Rightarrow> py_error + val" where
  "f x =
     (case py_gt x (PyInt 0) of
        Inl e \<Rightarrow> Inl e
      | Inr c \<Rightarrow>
          (case py_bool c of
             Inl e \<Rightarrow> Inl e
           | Inr b \<Rightarrow> if b then Inr x else py_mul (PyInt 2) x))"

definition f_jit :: "val \<Rightarrow> py_error + val" where
  "f_jit = jit1 (''f'', 3) (''x'', False) f"

definition f_jit_correct :: "val \<Rightarrow> py_error + val" where
  "f_jit_correct = jit1 (''f'', 3) (''x'', True) f"

text \<open>Signed 32-bit values: the successor does not wrap below the largest value, and a
  Python integer in range keeps its value.\<close>

lemma sint_succ:
  fixes u :: i32
  assumes "sint u < 2 ^ 31 - 1"
  shows "sint (u + 1) = sint u + 1"
proof -
  have "- (2 ^ 31) \<le> sint u" 
    using sint_ge [of u] by simp
  then show ?thesis
    using assms by (simp add: sint_word_ariths signed_take_bit_int_eq_self)
qed

lemma sint_lt_max: "sint (u :: i32) < 2 ^ 31"
  using sint_lt [of u] by simp

lemma sint_of_int_id:
  assumes "in_i32 k"
  shows "sint (word_of_int k :: i32) = k"
  using assms by (simp add: in_i32_def signed_of_int signed_take_bit_int_eq_self)

text \<open>
  \<^verbatim>\<open>
  def g(x, n):
    i = 0
    while i < n:
      i += 1
    return x + i

  g_jit = jax.jit(g)
  \<close>
  The loop is the function \<open>g_loop\<close> of the loop variable \<open>i\<close>. It terminates on all
  values: an iteration happens only when \<open>i < n\<close> has a concrete truth value, and then
  \<open>n - i\<close> decreases (an array \<open>i\<close> below \<open>n\<close> does not wrap).
\<close>

function g_loop :: "val \<Rightarrow> val \<Rightarrow> py_error + val" where
  "g_loop i n =
     (case py_lt i n of
        Inl e \<Rightarrow> Inl e
      | Inr c \<Rightarrow>
          (case py_bool c of
             Inl e \<Rightarrow> Inl e
           | Inr b \<Rightarrow>
               if b
               then (case py_add i (PyInt 1) of
                       Inl e \<Rightarrow> Inl e
                     | Inr i' \<Rightarrow> g_loop i' n)
               else Inr i))"
  by pat_completeness auto
termination
proof (relation "measure (\<lambda>(i, n). nat (int_value n - int_value i))")
  show "wf (measure (\<lambda>(i, n). nat (int_value n - int_value i)))"
    by simp
next
  fix i n :: val and c b i'
  assume lt: "py_lt i n = Inr c" and tb: "py_bool c = Inr b" and b: "b"
    and add: "py_add i (PyInt 1) = Inr i'"
  have "int_value i < int_value n \<and> int_value i' = int_value i + 1"
  proof (cases i)
    case (PyInt a)
    then show ?thesis
      using lt tb b add
      by (cases n) (auto simp: jax_binop_def to_i32_def sint_of_int_id split: if_splits)
  next
    case (Arr u)
    show ?thesis
    proof (cases n)
      case (PyInt k)
      with Arr lt tb b have "in_i32 k" "sint u < k"
        by (auto simp: jax_binop_def to_i32_def sint_of_int_id split: if_splits)
      then have "sint (u + 1) = sint u + 1"
        by (intro sint_succ) (simp add: in_i32_def)
      with Arr PyInt \<open>sint u < k\<close> add show ?thesis
        by (auto simp: jax_binop_def to_i32_def in_i32_def)
    next
      case (Arr v)
      with \<open>i = Arr u\<close> lt tb b have "sint u < sint v"
        by (auto simp: jax_binop_def)
      then have "sint (u + 1) = sint u + 1"
        using sint_lt_max [of v] by (intro sint_succ) simp
      with \<open>i = Arr u\<close> Arr \<open>sint u < sint v\<close> add show ?thesis
        by (auto simp: jax_binop_def to_i32_def in_i32_def)
    next
      case (Tracer t e)
      with Arr lt tb show ?thesis
        by (cases t) (auto simp: jax_binop_def)
    qed
  next
    case (Tracer t e)
    with lt tb show ?thesis
      by (cases n; cases t) (auto simp: jax_binop_def to_i32_def split: if_splits prod.splits)
  qed
  then show "((i', n), (i, n)) \<in> measure (\<lambda>(i, n). nat (int_value n - int_value i))"
    by simp
qed


declare g_loop.simps [simp del]

definition g :: "val \<Rightarrow> val \<Rightarrow> py_error + val" where
  "g x n =
     (case g_loop (PyInt 0) n of
        Inl e \<Rightarrow> Inl e
      | Inr i \<Rightarrow> py_add x i)"

definition g_jit :: "val \<Rightarrow> val \<Rightarrow> py_error + val" where
  "g_jit = jit2 (''g'', 3) (''x'', False) (''n'', False) g"

text \<open>
  \<^verbatim>\<open>
  @jax.jit
  def loop_body(prev_i):
    return prev_i + 1

  def g_inner_jitted(x, n):
    i = 0
    while i < n:
      i = loop_body(i)
    return x + i
  \<close>
\<close>

definition loop_body :: "val \<Rightarrow> py_error + val" where
  "loop_body = jit1 (''loop_body'', 3) (''prev_i'', False) (\<lambda>prev_i. py_add prev_i (PyInt 1))"

lemma in_i32_1: "in_i32 1" "in_i32 0"
  by (simp_all add: in_i32_def)

lemma loop_body_PyInt:
  "loop_body (PyInt a) = (if in_i32 a then Inr (Arr (word_of_int a + 1)) else Inl OverflowError)"
  by (simp add: loop_body_def jit1_def jit_def jax_binop_def to_i32_def in_i32_1)

lemma loop_body_Arr: "loop_body (Arr u) = Inr (Arr (u + 1))"
  by (simp add: loop_body_def jit1_def jit_def jax_binop_def to_i32_def in_i32_1)

lemma loop_body_Tracer: "loop_body (Tracer t e) = Inr (Tracer t (Add e (Lit 1)))"
  by (simp add: loop_body_def jit1_def jit_def jax_binop_def to_i32_def in_i32_1)

text \<open>The loop of \<open>g_inner_jitted\<close> terminates as well: the first iteration turns the
  Python integer \<open>i\<close> into an array, and from then on \<open>n - i\<close> decreases.\<close>

function g_inner_jitted_loop :: "val \<Rightarrow> val \<Rightarrow> py_error + val" where
  "g_inner_jitted_loop i n =
     (case py_lt i n of
        Inl e \<Rightarrow> Inl e
      | Inr c \<Rightarrow>
          (case py_bool c of
             Inl e \<Rightarrow> Inl e
           | Inr b \<Rightarrow>
               if b
               then (case loop_body i of
                       Inl e \<Rightarrow> Inl e
                     | Inr i' \<Rightarrow> g_inner_jitted_loop i' n)
               else Inr i))"
  by pat_completeness auto
termination
proof (relation "measures [\<lambda>(i, n). (case i of PyInt k \<Rightarrow> 1 | _ \<Rightarrow> 0),
                           \<lambda>(i, n). nat (int_value n - int_value i)]")
  show "wf (measures [\<lambda>(i, n). (case i of PyInt k \<Rightarrow> 1 | _ \<Rightarrow> 0),
                           \<lambda>(i, n). nat (int_value n - int_value i)])"
    by simp
next
  fix i n :: val and c b i'
  assume lt: "py_lt i n = Inr c" and tb: "py_bool c = Inr b" and b: "b"
    and step: "loop_body i = Inr i'"
  have "(\<exists>k w. i = PyInt k \<and> i' = Arr w) \<or>
        (\<exists>u. i = Arr u \<and> i' = Arr (u + 1) \<and> sint u < int_value n \<and> sint (u + 1) = sint u + 1)"
  proof (cases i)
    case (PyInt a)
    then show ?thesis
      using step by (auto simp: loop_body_PyInt split: if_splits)
  next
    case (Arr u)
    have "sint u < int_value n \<and> sint (u + 1) = sint u + 1"
    proof (cases n)
      case (PyInt k)
      with Arr lt tb b have "in_i32 k" "sint u < k"
        by (auto simp: jax_binop_def to_i32_def sint_of_int_id split: if_splits)
      then have "sint (u + 1) = sint u + 1"
        by (intro sint_succ) (simp add: in_i32_def)
      with PyInt \<open>sint u < k\<close> show ?thesis
        by simp
    next
      case (Arr v)
      with \<open>i = Arr u\<close> lt tb b have "sint u < sint v"
        by (auto simp: jax_binop_def)
      then have "sint (u + 1) = sint u + 1"
        using sint_lt_max [of v] by (intro sint_succ) simp
      with Arr \<open>sint u < sint v\<close> show ?thesis
        by simp
    next
      case (Tracer t e)
      with Arr lt tb show ?thesis
        by (cases t) (auto simp: jax_binop_def)
    qed
    with Arr step show ?thesis
      by (simp add: loop_body_Arr)
  next
    case (Tracer t e)
    with lt tb show ?thesis
      by (cases n; cases t) (auto simp: jax_binop_def to_i32_def split: if_splits prod.splits)
  qed
  then show "((i', n), (i, n)) \<in> measures [\<lambda>(i, n). (case i of PyInt k \<Rightarrow> 1 | _ \<Rightarrow> 0),
                           \<lambda>(i, n). nat (int_value n - int_value i)]"
    by auto
qed

declare g_inner_jitted_loop.simps [simp del]

definition g_inner_jitted :: "val \<Rightarrow> val \<Rightarrow> py_error + val" where
  "g_inner_jitted x n =
     (case g_inner_jitted_loop (PyInt 0) n of
        Inl e \<Rightarrow> Inl e
      | Inr i \<Rightarrow> py_add x i)"

text \<open>
  \<^verbatim>\<open>
  g_jit_correct = jax.jit(g, static_argnames=['n'])

  @partial(jax.jit, static_argnames=['n'])
  def g_jit_decorated(x, n):
    i = 0
    while i < n:
      i += 1
    return x + i
  \<close>
  The body of \<open>g_jit_decorated\<close> is the body of \<open>g\<close>, character for character, so it is
  \<open>g\<close> compiled under its own name.
\<close>

definition g_jit_correct :: "val \<Rightarrow> val \<Rightarrow> py_error + val" where
  "g_jit_correct = jit2 (''g'', 3) (''x'', False) (''n'', True) g"

definition g_jit_decorated :: "val \<Rightarrow> val \<Rightarrow> py_error + val" where
  "g_jit_decorated = jit2 (''g_jit_decorated'', 3) (''x'', False) (''n'', True) g"

section \<open>Properties of the compiled functions\<close>

lemma g_loop_PyInt: "g_loop (PyInt a) (PyInt n) = Inr (PyInt (max a n))"
proof (induction "nat (n - a)" arbitrary: a)
  case 0
  then show ?case
    by (subst g_loop.simps) simp
next
  case (Suc k)
  then have "k = nat (n - (a + 1))" and "a < n"
    by linarith+
  with Suc.hyps(1) [of "a + 1"] show ?case
    by (subst g_loop.simps) simp
qed

lemma g_PyInt: "g (PyInt x) (PyInt n) = Inr (PyInt (x + max n 0))"
  by (simp add: g_def g_loop_PyInt max.commute)

lemma g_loop_traced_bound:
  "g_loop (PyInt 0) (Tracer (fname, line) (Var x)) = Inl (ConcretizationTypeError fname line [x])"
  by (subst g_loop.simps) (simp add: jax_binop_def to_i32_def in_i32_1)

lemma g_traced_x:
  assumes "in_i32 (max n 0)"
  shows "g (Tracer t (Var x)) (PyInt n) = Inr (Tracer t (Add (Var x) (Lit (word_of_int (max n 0)))))"
  using assms by (simp add: g_def g_loop_PyInt jax_binop_def to_i32_def max.commute)

lemma jit_g_static_n:
  assumes "in_i32 x" and "in_i32 (max n 0)"
  shows "jit2 t (''x'', False) (''n'', True) g (PyInt x) (PyInt n) = Inr (Arr (word_of_int (x + max n 0)))"
  using assms by (simp add: jit2_def jit_def to_i32_def g_traced_x)

lemma g_inner_jitted_loop_Arr:
  assumes "in_i32 n" and "sint u \<le> n"
  shows "g_inner_jitted_loop (Arr u) (PyInt n) = Inr (Arr (word_of_int n))"
  using assms(2)
proof (induction "nat (n - sint u)" arbitrary: u)
  case 0
  then have "sint u = n"
    by simp
  then have "word_of_int n = u"
    by auto
  with \<open>sint u = n\<close> assms(1) show ?case
    by (subst g_inner_jitted_loop.simps) (simp add: jax_binop_def to_i32_def sint_of_int_id)
next
  case (Suc k)
  then have lt: "sint u < n"
    by linarith
  then have succ: "sint (u + 1) = sint u + 1"
    using assms(1) by (intro sint_succ) (simp add: in_i32_def)
  with Suc.hyps(2) lt have "k = nat (n - sint (u + 1))" and "sint (u + 1) \<le> n"
    by linarith+
  then have "g_inner_jitted_loop (Arr (u + 1)) (PyInt n) = Inr (Arr (word_of_int n))"
    by (rule Suc.hyps(1))
  with lt assms(1) show ?case
    by (subst g_inner_jitted_loop.simps)
      (simp add: jax_binop_def to_i32_def sint_of_int_id loop_body_Arr)
qed

lemma g_inner_jitted_nonpos:
  assumes "n \<le> 0"
  shows "g_inner_jitted (PyInt x) (PyInt n) = Inr (PyInt x)"
  using assms by (simp add: g_inner_jitted_def g_inner_jitted_loop.simps [of "PyInt 0"])

lemma g_inner_jitted_pos:
  assumes "0 < n" and "in_i32 n" and "in_i32 x"
  shows "g_inner_jitted (PyInt x) (PyInt n) = Inr (Arr (word_of_int (x + n)))"
proof -
  have "g_inner_jitted_loop (Arr 1) (PyInt n) = Inr (Arr (word_of_int n))"
    using assms(1,2) by (intro g_inner_jitted_loop_Arr) simp_all
  then have "g_inner_jitted_loop (PyInt 0) (PyInt n) = Inr (Arr (word_of_int n))"
    using assms(1) by (subst g_inner_jitted_loop.simps) (simp add: loop_body_PyInt in_i32_1)
  then show ?thesis
    using assms(3) by (simp add: g_inner_jitted_def jax_binop_def to_i32_def)
qed

text \<open>
  Claim C9, as amended. For all Python integers \<open>x\<close> and \<open>n\<close>, \<open>g(x, n)\<close> returns
  \<open>x + max(n, 0)\<close>. Its loop starts at \<open>i = 0\<close>, an iteration happens exactly while
  \<open>i < n\<close> and adds one to \<open>i\<close>, and the loop ends with \<open>i = max(n, 0)\<close>: it runs
  \<open>max(n, 0)\<close> iterations. When \<open>x\<close>, \<open>max(n, 0)\<close> and \<open>x + max(n, 0)\<close> fit into \<open>int32\<close>,
  \<open>g_inner_jitted\<close>, \<open>g_jit_correct\<close> and \<open>g_jit_decorated\<close> return that same number (the
  compiled ones as an \<open>int32\<close> array). All return 30 on \<open>(10, 20)\<close>.
\<close>

theorem g_terminates_and_variants_agree:
  "g (PyInt x) (PyInt n) = Inr (PyInt (x + max n 0)) \<and>
   g_loop (PyInt 0) (PyInt n) = Inr (PyInt (max n 0)) \<and>
   (i < n \<longrightarrow> g_loop (PyInt i) (PyInt n) = g_loop (PyInt (i + 1)) (PyInt n)) \<and>
   (n \<le> i \<longrightarrow> g_loop (PyInt i) (PyInt n) = Inr (PyInt i)) \<and>
   (in_i32 x \<and> in_i32 (max n 0) \<and> in_i32 (x + max n 0) \<longrightarrow>
      (\<exists>r. g_inner_jitted (PyInt x) (PyInt n) = Inr r \<and> int_value r = x + max n 0) \<and>
      g_jit_correct (PyInt x) (PyInt n) = Inr (Arr (word_of_int (x + max n 0))) \<and>
      g_jit_decorated (PyInt x) (PyInt n) = Inr (Arr (word_of_int (x + max n 0))) \<and>
      int_value (Arr (word_of_int (x + max n 0))) = x + max n 0) \<and>
   g_inner_jitted (PyInt 10) (PyInt 20) = Inr (Arr 30) \<and>
   g_jit_correct (PyInt 10) (PyInt 20) = Inr (Arr 30) \<and>
   g_jit_decorated (PyInt 10) (PyInt 20) = Inr (Arr 30)"
proof -
  have py: "g (PyInt x) (PyInt n) = Inr (PyInt (x + max n 0))"
    by (rule g_PyInt)
  have count: "g_loop (PyInt 0) (PyInt n) = Inr (PyInt (max n 0))"
    by (simp add: g_loop_PyInt max.commute)
  have step: "g_loop (PyInt i) (PyInt n) = g_loop (PyInt (i + 1)) (PyInt n)" if "i < n"
    using that by (subst g_loop.simps) simp
  have stop: "g_loop (PyInt i) (PyInt n) = Inr (PyInt i)" if "n \<le> i"
    using that by (subst g_loop.simps) simp
  have jitted: "(\<exists>r. g_inner_jitted (PyInt x) (PyInt n) = Inr r \<and> int_value r = x + max n 0) \<and>
      g_jit_correct (PyInt x) (PyInt n) = Inr (Arr (word_of_int (x + max n 0))) \<and>
      g_jit_decorated (PyInt x) (PyInt n) = Inr (Arr (word_of_int (x + max n 0))) \<and>
      int_value (Arr (word_of_int (x + max n 0))) = x + max n 0"
    if r: "in_i32 x" "in_i32 (max n 0)" "in_i32 (x + max n 0)"
  proof -
    have v: "int_value (Arr (word_of_int (x + max n 0))) = x + max n 0"
      by (simp only: int_value.simps sint_of_int_id [OF r(3)])
    have "\<exists>r. g_inner_jitted (PyInt x) (PyInt n) = Inr r \<and> int_value r = x + max n 0"
    proof (cases "n \<le> 0")
      case True
      then show ?thesis
        by (simp add: g_inner_jitted_nonpos)
    next
      case False
      then have "0 < n" "max n 0 = n"
        by simp_all
      with r v show ?thesis
        by (simp add: g_inner_jitted_pos)
    qed
    with r v show ?thesis
      by (simp add: g_jit_correct_def g_jit_decorated_def jit_g_static_n)
  qed
  have "in_i32 10" "in_i32 20"
    by (simp_all add: in_i32_def)
  then have ex: "g_inner_jitted (PyInt 10) (PyInt 20) = Inr (Arr 30)"
      "g_jit_correct (PyInt 10) (PyInt 20) = Inr (Arr 30)"
      "g_jit_decorated (PyInt 10) (PyInt 20) = Inr (Arr 30)"
    by (simp_all add: g_inner_jitted_pos g_jit_correct_def g_jit_decorated_def jit_g_static_n)
  from py count step stop jitted ex show ?thesis
    by blast
qed

theorem g_terminates_and_variants_agree_witness:
  "in_i32 10 \<and> in_i32 (max 20 0) \<and> in_i32 (10 + max 20 0) \<and>
   g (PyInt 10) (PyInt 20) = Inr (PyInt 30) \<and>
   g_loop (PyInt 0) (PyInt 20) = Inr (PyInt 20) \<and>
   g_inner_jitted (PyInt 10) (PyInt 20) = Inr (Arr 30) \<and>
   g_jit_correct (PyInt 10) (PyInt 20) = Inr (Arr 30) \<and>
   g_jit_decorated (PyInt 10) (PyInt 20) = Inr (Arr 30) \<and>
   int_value (Arr 30) = 30"
  using g_terminates_and_variants_agree [of 10 20 0]
  by (simp add: in_i32_def)

text \<open>
  Claim C9 as stated lets the variants agree with \<open>g\<close> on all integers. On
  \<open>(2147483647, 1)\<close> the Python function returns \<open>2147483648\<close>, and the compiled one
  wraps around to \<open>-2147483648\<close>.
\<close>

theorem g_jit_correct_wraps:
  "in_i32 2147483647 \<and> in_i32 1 \<and>
   g (PyInt 2147483647) (PyInt 1) = Inr (PyInt 2147483648) \<and>
   g_jit_correct (PyInt 2147483647) (PyInt 1) = Inr (Arr (- 2147483648)) \<and>
   int_value (Arr (- 2147483648)) = - 2147483648"
proof -
  have r: "in_i32 2147483647" "in_i32 (max 1 0)"
    by (simp_all add: in_i32_def)
  have "g_jit_correct (PyInt 2147483647) (PyInt 1) = Inr (Arr (- 2147483648))"
    using jit_g_static_n [OF r] by (simp add: g_jit_correct_def)
  then show ?thesis
    using r by (simp add: g_PyInt)
qed

text \<open>
  Claim C2, as amended. Compiled without static arguments and called on concrete \<open>int32\<close>
  scalars (Python integers that fit into \<open>int32\<close>, or \<open>int32\<close> arrays), \<open>f\<close> (which branches
  on \<open>x > 0\<close>) and \<open>g\<close> (whose loop tests \<open>i < n\<close>) fail with a \<open>ConcretizationTypeError\<close>
  that names the traced function, the line of its definition and the argument the
  condition depends on: \<open>x\<close> for \<open>f\<close>, \<open>n\<close> for \<open>g\<close>.
\<close>

theorem jit_branch_raises_concretization_error:
  assumes "jax_scalar x" and "jax_scalar n"
  shows "f_jit x = Inl (ConcretizationTypeError ''f'' 3 [''x'']) \<and>
         g_jit x n = Inl (ConcretizationTypeError ''g'' 3 [''n''])"
proof
  show "f_jit x = Inl (ConcretizationTypeError ''f'' 3 [''x''])"
    using assms(1)
    by (cases x) (simp_all add: f_jit_def jit1_def jit_def f_def jax_binop_def to_i32_def in_i32_1)
  show "g_jit x n = Inl (ConcretizationTypeError ''g'' 3 [''n''])"
    using assms
    by (cases x; cases n)
      (simp_all add: g_jit_def jit2_def jit_def g_def g_loop_traced_bound to_i32_def)
qed

theorem jit_branch_raises_concretization_error_witness:
  "jax_scalar (PyInt 10) \<and> jax_scalar (PyInt 20) \<and>
   f_jit (PyInt 10) = Inl (ConcretizationTypeError ''f'' 3 [''x'']) \<and>
   g_jit (PyInt 10) (PyInt 20) = Inl (ConcretizationTypeError ''g'' 3 [''n''])"
proof -
  have s: "jax_scalar (PyInt 10)" "jax_scalar (PyInt 20)"
    by (simp_all add: in_i32_def)
  show ?thesis
    using jit_branch_raises_concretization_error [OF s] s by simp
qed

text \<open>
  Claim C2 as stated lets the call fail with the concretization error on every concrete
  input. A Python integer that does not fit into \<open>int32\<close> never reaches the trace: the
  conversion of the argument raises \<open>OverflowError\<close>, for \<open>f_jit(2**31)\<close> and for \<open>g_jit\<close>
  with \<open>2**31\<close> as either argument.
\<close>

theorem jit_rejects_python_int_beyond_int32:
  "f_jit (PyInt 2147483648) = Inl OverflowError \<and>
   g_jit (PyInt 10) (PyInt 2147483648) = Inl OverflowError \<and>
   g_jit (PyInt 2147483648) (PyInt 20) = Inl OverflowError"
  by (simp add: f_jit_def g_jit_def jit1_def jit2_def jit_def to_i32_def in_i32_def)

section \<open>Haiku: parameters, state and transformed functions\<close>

text \<open>
  The Haiku notebook defines a linear module and a stateful counter and runs them through
  \<open>hk.transform\<close> and \<open>hk.transform_with_state\<close>. The arrays it handles are \<open>int32\<close>
  scalars, and \<open>float32\<close> scalars, vectors and matrices.
\<close>

subsection \<open>The \<open>float32\<close> format\<close>

text \<open>
  Modelled from the spec: the arithmetic of \<open>float32\<close> arrays belongs to the array library
  and the hardware, not to the sources. A \<open>float32\<close> value is a number of the IEEE 754
  binary32 format, an infinity or a NaN; a finite value is kept as the real number it
  stands for (the two zeros of the format are one value here). An operation returns its
  exact result rounded to the nearest number of the format: the significand has 24 bits,
  the exponent \<open>\<lfloor>log 2 |x|\<rfloor>\<close> runs from \<open>-126\<close> to \<open>127\<close> (below, the numbers are the
  multiples of \<open>2^-149\<close>), a tie goes to the even significand, and a result that rounds
  to \<open>2^128\<close> or more in magnitude is an infinity.
\<close>

datatype f32 = Finite real | PosInf | NegInf | NaN

definition exponent :: "real \<Rightarrow> int" where
  "exponent x = max (- 126) (bitlen \<lfloor>\<bar>x\<bar> * 2 ^ 126\<rfloor> - 127)"

definition round_to_even :: "real \<Rightarrow> int" where
  "round_to_even q =
     (let n = \<lfloor>q\<rfloor>; r = q - of_int n
      in if r < 1 / 2 then n else if 1 / 2 < r then n + 1 else if even n then n else n + 1)"

definition round_f32 :: "real \<Rightarrow> real" where
  "round_f32 x = (let u = 2 powi (exponent x - 23) in of_int (round_to_even (x / u)) * u)"

definition f32_of_real :: "real \<Rightarrow> f32" where
  "f32_of_real x =
     (let y = round_f32 x
      in if 2 ^ 128 \<le> y then PosInf else if y \<le> - (2 ^ 128) then NegInf else Finite y)"

definition f32_of_int :: "int \<Rightarrow> f32" where
  "f32_of_int n = f32_of_real (of_int n)"

text \<open>The values of the format: the infinities, NaN and the finite values that are their
  own rounding. The operations below return such values; the numbers written in the
  snippets (\<open>1.\<close>, \<open>5.\<close>, ...) and the recorded weights are such values.\<close>

definition is_f32 :: "f32 \<Rightarrow> bool" where
  "is_f32 v = (case v of Finite r \<Rightarrow> f32_of_real r = Finite r | _ \<Rightarrow> True)"

text \<open>Sum, product and fused multiply-add \<open>a * b + c\<close> (one rounding). An infinity
  minus itself and zero times an infinity are NaN.\<close>

fun f32_add :: "f32 \<Rightarrow> f32 \<Rightarrow> f32" where
  "f32_add (Finite a) (Finite b) = f32_of_real (a + b)"
| "f32_add NaN b = NaN"
| "f32_add a NaN = NaN"
| "f32_add PosInf NegInf = NaN"
| "f32_add NegInf PosInf = NaN"
| "f32_add PosInf b = PosInf"
| "f32_add NegInf b = NegInf"
| "f32_add a PosInf = PosInf"
| "f32_add a NegInf = NegInf"

fun f32_mul :: "f32 \<Rightarrow> f32 \<Rightarrow> f32" where
  "f32_mul (Finite a) (Finite b) = f32_of_real (a * b)"
| "f32_mul NaN b = NaN"
| "f32_mul a NaN = NaN"
| "f32_mul (Finite a) PosInf = (if a = 0 then NaN else if 0 < a then PosInf else NegInf)"
| "f32_mul (Finite a) NegInf = (if a = 0 then NaN else if 0 < a then NegInf else PosInf)"
| "f32_mul PosInf (Finite b) = (if b = 0 then NaN else if 0 < b then PosInf else NegInf)"
| "f32_mul NegInf (Finite b) = (if b = 0 then NaN else if 0 < b then NegInf else PosInf)"
| "f32_mul PosInf PosInf = PosInf"
| "f32_mul PosInf NegInf = NegInf"
| "f32_mul NegInf PosInf = NegInf"
| "f32_mul NegInf NegInf = PosInf"

fun f32_fma :: "f32 \<Rightarrow> f32 \<Rightarrow> f32 \<Rightarrow> f32" where
  "f32_fma (Finite a) (Finite b) (Finite c) = f32_of_real (a * b + c)"
| "f32_fma (Finite a) (Finite b) c = c"
| "f32_fma a b c = f32_add (f32_mul a b) c"

subsection \<open>Arrays\<close>

datatype dtype = float32 | int32

datatype ndarray = Int32 i32 | Float32 f32 | Vec "f32 list" | Mat "f32 array2"

fun shape :: "ndarray \<Rightarrow> nat list" where
  "shape (Int32 c) = []"
| "shape (Float32 r) = []"
| "shape (Vec v) = [length v]"
| "shape (Mat m) = [length (rows m), ncols m]"

text \<open>
  Modelled from the spec: elementwise arithmetic, \<open>jnp.dot\<close> and \<open>jnp.ones\<close> belong to the
  array library. Two \<open>int32\<close> scalars are combined in \<open>int32\<close> (wrapping around); in every
  other case an \<open>int32\<close> operand is converted to \<open>float32\<close> (rounded to the nearest), the
  operands are taken as matrices (a scalar as \<open>1 \<times> 1\<close>, a vector as one row) and combined
  with broadcasting in \<open>float32\<close>, and the result has the larger rank. An entry of
  \<open>jnp.dot\<close> is accumulated from zero along the row, one fused multiply-add for each
  term; with this kernel the notebook's recorded outputs \<open>[[2.6736789 2.6259897]]\<close> and
  \<open>[[9.673679 9.62599]]\<close> come out digit for digit. \<open>jnp.ones\<close> builds the arrays of the
  four kinds; no snippet asks it for another one (an \<open>int32\<close> array of positive rank, an
  array of rank three), which is a \<open>TypeError\<close> here.
\<close>

fun as_matrix :: "ndarray \<Rightarrow> nat \<times> f32 array2" where
  "as_matrix (Int32 c) = (0, \<lparr>ncols = 1, rows = [[f32_of_int (sint c)]]\<rparr>)"
| "as_matrix (Float32 r) = (0, \<lparr>ncols = 1, rows = [[r]]\<rparr>)"
| "as_matrix (Vec v) = (1, \<lparr>ncols = length v, rows = [v]\<rparr>)"
| "as_matrix (Mat m) = (2, m)"

fun of_matrix :: "nat \<Rightarrow> f32 array2 \<Rightarrow> ndarray" where
  "of_matrix 0 m = Float32 (hd (hd (rows m)))"
| "of_matrix (Suc 0) m = Vec (hd (rows m))"
| "of_matrix r m = Mat m"

definition nd_binop ::
    "(i32 \<Rightarrow> i32 \<Rightarrow> i32) \<Rightarrow> (f32 \<Rightarrow> f32 \<Rightarrow> f32) \<Rightarrow> ndarray \<Rightarrow> ndarray \<Rightarrow> py_error + ndarray" where
  "nd_binop wop fop a b =
     (case (a, b) of
        (Int32 u, Int32 v) \<Rightarrow> Inr (Int32 (wop u v))
      | _ \<Rightarrow>
          (case (as_matrix a, as_matrix b) of
             ((ra, ma), (rb, mb)) \<Rightarrow>
               (case broadcast2 fop ma mb of
                  Inl e \<Rightarrow> Inl e
                | Inr m \<Rightarrow> Inr (of_matrix (max ra rb) m))))"

definition nd_add :: "ndarray \<Rightarrow> ndarray \<Rightarrow> py_error + ndarray" where
  "nd_add = nd_binop (+) f32_add"

definition nd_mul :: "ndarray \<Rightarrow> ndarray \<Rightarrow> py_error + ndarray" where
  "nd_mul = nd_binop (*) f32_mul"

definition f32_dot :: "f32 list \<Rightarrow> f32 list \<Rightarrow> f32" where
  "f32_dot r c = foldl (\<lambda>acc (a, b). f32_fma a b acc) (Finite 0) (zip r c)"

definition matmul :: "f32 array2 \<Rightarrow> f32 array2 \<Rightarrow> py_error + f32 array2" where
  "matmul a b =
     (if ncols a = length (rows b)
      then Inr \<lparr>ncols = ncols b,
                rows = map (\<lambda>r. map (\<lambda>c. f32_dot r (map (\<lambda>br. br ! c) (rows b)))
                                 [0..<ncols b]) (rows a)\<rparr>
      else Inl TypeError)"

fun nd_dot :: "ndarray \<Rightarrow> ndarray \<Rightarrow> py_error + ndarray" where
  "nd_dot (Mat a) (Mat b) = (case matmul a b of Inl e \<Rightarrow> Inl e | Inr m \<Rightarrow> Inr (Mat m))"
| "nd_dot (Mat a) (Vec b) =
     (case matmul a \<lparr>ncols = 1, rows = map (\<lambda>y. [y]) b\<rparr> of
        Inl e \<Rightarrow> Inl e
      | Inr m \<Rightarrow> Inr (Vec (map hd (rows m))))"
| "nd_dot (Vec a) (Mat b) =
     (case matmul \<lparr>ncols = length a, rows = [a]\<rparr> b of
        Inl e \<Rightarrow> Inl e
      | Inr m \<Rightarrow> Inr (Vec (hd (rows m))))"
| "nd_dot (Vec a) (Vec b) =
     (if length a = length b then Inr (Float32 (f32_dot a b)) else Inl TypeError)"
| "nd_dot a b = nd_mul a b"

fun ones :: "nat list \<Rightarrow> dtype \<Rightarrow> py_error + ndarray" where
  "ones [] int32 = Inr (Int32 1)"
| "ones [] float32 = Inr (Float32 (Finite 1))"
| "ones [n] float32 = Inr (Vec (replicate n (Finite 1)))"
| "ones [m, n] float32 = Inr (Mat \<lparr>ncols = n, rows = replicate m (replicate n (Finite 1))\<rparr>)"
| "ones shp dt = Inl TypeError"

text \<open>
  A parameter mapping sends a module name to the mapping from the names of its parameters
  to their arrays; the state mapping has the same form. While a transformed function runs,
  the frame holds the parameters, for every state entry the pair of its initial and its
  current value, the random key of the call, whether the parameters are frozen (they are
  while \<open>apply\<close> runs) and the name of the module whose code is running (\<open>~\<close> outside every
  module).
\<close>

type_synonym named_arrays = "string \<rightharpoonup> ndarray"

type_synonym params = "string \<rightharpoonup> named_arrays"

type_synonym state = "string \<rightharpoonup> named_arrays"

record 'k frame =
  fr_params :: params
  fr_state :: "string \<rightharpoonup> (string \<rightharpoonup> ndarray \<times> ndarray)"
  fr_rng :: "'k option"
  fr_frozen :: bool
  fr_module :: string

type_synonym ('a, 'k) hk = "'k frame \<Rightarrow> py_error + 'a \<times> 'k frame"

type_synonym 'k initializer = "'k option \<Rightarrow> nat list \<Rightarrow> dtype \<Rightarrow> py_error + ndarray"

definition entries_of :: "(string \<rightharpoonup> (string \<rightharpoonup> 'v)) \<Rightarrow> string \<Rightarrow> (string \<rightharpoonup> 'v)" where
  "entries_of m nm = (case m nm of None \<Rightarrow> Map.empty | Some b \<Rightarrow> b)"

text \<open>
  Modelled from the spec: \<open>hk.get_parameter\<close>, \<open>hk.get_state\<close>, \<open>hk.set_state\<close> and the
  transforms are library code that is not part of the sources. The spec: a parameter/state
  mapping is ``a nested mapping from names to numeric arrays, produced by an initialization
  pass and threaded explicitly through subsequent evaluation calls'', and a transform turns
  a stateful definition into ``a pair of pure functions, one for initialization and one for
  application, given explicit parameter/state arguments''. So \<open>get_parameter\<close> returns the
  stored parameter of the running module; a missing one is created by the initializer
  during initialization and is a \<open>ValueError\<close> during application; a parameter whose shape
  is not the requested one is a \<open>ValueError\<close>. \<open>get_state\<close> returns the current value of
  the entry and creates a missing one with the initializer; \<open>set_state\<close> replaces the
  current value and keeps the initial one.
\<close>

definition get_parameter :: "string \<Rightarrow> nat list \<Rightarrow> dtype \<Rightarrow> 'k initializer \<Rightarrow> (ndarray, 'k) hk" where
  "get_parameter nm shp dt init fr =
     (let b = entries_of (fr_params fr) (fr_module fr) in
      case (case b nm of
              Some p \<Rightarrow> Inr (p, fr)
            | None \<Rightarrow>
                if fr_frozen fr then Inl ValueError
                else (case init (fr_rng fr) shp dt of
                        Inl e \<Rightarrow> Inl e
                      | Inr p \<Rightarrow>
                          Inr (p, fr\<lparr>fr_params := (fr_params fr)(fr_module fr \<mapsto> b(nm \<mapsto> p))\<rparr>))) of
        Inl e \<Rightarrow> Inl e
      | Inr (p, fr') \<Rightarrow> if shape p = shp then Inr (p, fr') else Inl ValueError)"

definition get_state :: "string \<Rightarrow> nat list \<Rightarrow> dtype \<Rightarrow> 'k initializer \<Rightarrow> (ndarray, 'k) hk" where
  "get_state nm shp dt init fr =
     (let b = entries_of (fr_state fr) (fr_module fr) in
      case b nm of
        Some (initial, current) \<Rightarrow> Inr (current, fr)
      | None \<Rightarrow>
          (case init (fr_rng fr) shp dt of
             Inl e \<Rightarrow> Inl e
           | Inr v \<Rightarrow>
               Inr (v, fr\<lparr>fr_state := (fr_state fr)(fr_module fr \<mapsto> b(nm \<mapsto> (v, v)))\<rparr>)))"

definition set_state :: "string \<Rightarrow> ndarray \<Rightarrow> (unit, 'k) hk" where
  "set_state nm v fr =
     (let b = entries_of (fr_state fr) (fr_module fr);
          initial = (case b nm of None \<Rightarrow> v | Some (i, c) \<Rightarrow> i)
      in Inr ((), fr\<lparr>fr_state := (fr_state fr)(fr_module fr \<mapsto> b(nm \<mapsto> (initial, v)))\<rparr>))"

text \<open>The initializer \<open>jnp.ones\<close>, and \<open>hk.initializers.TruncatedNormal(stddev)\<close>, which
  draws from the key of the call. The sampler is not part of the sources and is a
  parameter \<open>tn\<close> of the development; nothing is assumed of it.\<close>

definition ones_init :: "'k initializer" where
  "ones_init rng shp dt = ones shp dt"

definition TruncatedNormal :: "('k \<Rightarrow> real \<Rightarrow> nat list \<Rightarrow> ndarray) \<Rightarrow> real \<Rightarrow> 'k initializer" where
  "TruncatedNormal tn stddev rng shp dt =
     (case rng of None \<Rightarrow> Inl ValueError | Some k \<Rightarrow> Inr (tn k stddev shp))"

text \<open>Running the code of a module: its parameters live under the module's name.\<close>

definition in_module :: "string \<Rightarrow> ('a, 'k) hk \<Rightarrow> ('a, 'k) hk" where
  "in_module nm body fr =
     (case body (fr\<lparr>fr_module := nm\<rparr>) of
        Inl e \<Rightarrow> Inl e
      | Inr (a, fr') \<Rightarrow> Inr (a, fr'\<lparr>fr_module := fr_module fr\<rparr>))"

text \<open>A mapping with a function applied to every value; the state mapping with its
  pairs, and back.\<close>

definition map_entries :: "('v \<Rightarrow> 'w) \<Rightarrow> (string \<rightharpoonup> 'v) \<Rightarrow> (string \<rightharpoonup> 'w)" where
  "map_entries h m = (\<lambda>n. map_option h (m n))"

definition state_pairs :: "state \<Rightarrow> (string \<rightharpoonup> (string \<rightharpoonup> ndarray \<times> ndarray))" where
  "state_pairs s = map_entries (map_entries (\<lambda>v. (v, v))) s"

definition initial_state :: "(string \<rightharpoonup> (string \<rightharpoonup> ndarray \<times> ndarray)) \<Rightarrow> state" where
  "initial_state ps = map_entries (map_entries fst) ps"

definition current_state :: "(string \<rightharpoonup> (string \<rightharpoonup> ndarray \<times> ndarray)) \<Rightarrow> state" where
  "current_state ps = map_entries (map_entries snd) ps"

text \<open>
  \<open>hk.transform_with_state(f)\<close>: \<open>init\<close> runs \<open>f\<close> on an empty frame and returns the
  parameters and the initial values of the state; \<open>apply\<close> runs \<open>f\<close> on the given
  parameters and state and returns the output and the current state. \<open>hk.transform(f)\<close> is
  the same for a function without state (a state that is not empty is a \<open>ValueError\<close>), and
  \<open>hk.without_apply_rng\<close> calls \<open>apply\<close> without a key (one version for each kind of
  transformed function).
\<close>

definition init_frame :: "'k option \<Rightarrow> 'k frame" where
  "init_frame rng =
     \<lparr>fr_params = Map.empty, fr_state = Map.empty, fr_rng = rng,
      fr_frozen = False, fr_module = ''~''\<rparr>"

definition apply_frame :: "params \<Rightarrow> state \<Rightarrow> 'k option \<Rightarrow> 'k frame" where
  "apply_frame ps st rng =
     \<lparr>fr_params = ps, fr_state = state_pairs st, fr_rng = rng,
      fr_frozen = True, fr_module = ''~''\<rparr>"

definition transform_with_state_init ::
    "('x \<Rightarrow> ('o, 'k) hk) \<Rightarrow> 'k option \<Rightarrow> 'x \<Rightarrow> py_error + params \<times> state" where
  "transform_with_state_init fn rng x =
     (case fn x (init_frame rng) of
        Inl e \<Rightarrow> Inl e
      | Inr (out, fr) \<Rightarrow> Inr (fr_params fr, initial_state (fr_state fr)))"

definition transform_with_state_apply ::
    "('x \<Rightarrow> ('o, 'k) hk) \<Rightarrow> params \<Rightarrow> state \<Rightarrow> 'k option \<Rightarrow> 'x \<Rightarrow> py_error + 'o \<times> state" where
  "transform_with_state_apply fn ps st rng x =
     (case fn x (apply_frame ps st rng) of
        Inl e \<Rightarrow> Inl e
      | Inr (out, fr) \<Rightarrow> Inr (out, current_state (fr_state fr)))"

definition transform_init :: "('x \<Rightarrow> ('o, 'k) hk) \<Rightarrow> 'k option \<Rightarrow> 'x \<Rightarrow> py_error + params" where
  "transform_init fn rng x =
     (case transform_with_state_init fn rng x of
        Inl e \<Rightarrow> Inl e
      | Inr (ps, st) \<Rightarrow> if st = Map.empty then Inr ps else Inl ValueError)"

definition transform_apply ::
    "('x \<Rightarrow> ('o, 'k) hk) \<Rightarrow> params \<Rightarrow> 'k option \<Rightarrow> 'x \<Rightarrow> py_error + 'o" where
  "transform_apply fn ps rng x =
     (case transform_with_state_apply fn ps Map.empty rng x of
        Inl e \<Rightarrow> Inl e
      | Inr (out, st) \<Rightarrow> if st = Map.empty then Inr out else Inl ValueError)"

definition without_apply_rng :: "('p \<Rightarrow> 'k option \<Rightarrow> 'r) \<Rightarrow> 'p \<Rightarrow> 'r" where
  "without_apply_rng ap ps = ap ps None"

definition without_apply_rng_with_state :: "('p \<Rightarrow> 's \<Rightarrow> 'k option \<Rightarrow> 'r) \<Rightarrow> 'p \<Rightarrow> 's \<Rightarrow> 'r" where
  "without_apply_rng_with_state ap ps st = ap ps st None"

text \<open>\<open>jax.tree_util.tree_map\<close> over a parameter mapping, and the function
  \<open>lambda x: x + 1.\<close> of the notebook (the sum is a \<open>float32\<close> sum).\<close>

definition tree_map :: "(ndarray \<Rightarrow> ndarray) \<Rightarrow> params \<Rightarrow> params" where
  "tree_map h ps = map_entries (map_entries h) ps"

fun add_one :: "ndarray \<Rightarrow> ndarray" where
  "add_one (Int32 c) = Float32 (f32_add (f32_of_int (sint c)) (Finite 1))"
| "add_one (Float32 r) = Float32 (f32_add r (Finite 1))"
| "add_one (Vec v) = Vec (map (\<lambda>a. f32_add a (Finite 1)) v)"
| "add_one (Mat m) =
     Mat \<lparr>ncols = ncols m, rows = map (map (\<lambda>a. f32_add a (Finite 1))) (rows m)\<rparr>"

text \<open>
  \<^verbatim>\<open>
  class MyLinear1(hk.Module):

    def __init__(self, output_size, name=None):
      super().__init__(name=name)
      self.output_size = output_size

    def __call__(self, x):
      j, k = x.shape[-1], self.output_size
      w_init = hk.initializers.TruncatedNormal(1. / np.sqrt(j))
      w = hk.get_parameter("w", shape=[j, k], dtype=x.dtype, init=w_init)
      b = hk.get_parameter("b", shape=[k], dtype=x.dtype, init=jnp.ones)
      return jnp.dot(x, w) + b

  def _forward_fn_linear1(x):
    module = MyLinear1(output_size=2)
    return module(x)

  forward_linear1 = hk.transform(_forward_fn_linear1)
  forward_without_rng = hk.without_apply_rng(hk.transform(_forward_fn_linear1))
  \<close>
  The input \<open>x\<close> is a two-dimensional \<open>float32\<close> array. A module without a name is named
  after its class, \<open>my_linear1\<close> (the name the notebook's transcript shows).
\<close>

record my_linear1 =
  output_size :: nat
  mod_name :: string

definition MyLinear1 :: "nat \<Rightarrow> string option \<Rightarrow> my_linear1" where
  "MyLinear1 k nm =
     \<lparr>output_size = k, mod_name = (case nm of None \<Rightarrow> ''my_linear1'' | Some n \<Rightarrow> n)\<rparr>"

definition MyLinear1_call ::
    "('k \<Rightarrow> real \<Rightarrow> nat list \<Rightarrow> ndarray) \<Rightarrow> my_linear1 \<Rightarrow> f32 array2 \<Rightarrow> (ndarray, 'k) hk" where
  "MyLinear1_call tn self x =
     in_module (mod_name self)
       (\<lambda>fr.
          let j = ncols x; k = output_size self;
              w_init = TruncatedNormal tn (1 / sqrt (real j))
          in case get_parameter ''w'' [j, k] float32 w_init fr of
               Inl e \<Rightarrow> Inl e
             | Inr (w, fr1) \<Rightarrow>
                 (case get_parameter ''b'' [k] float32 ones_init fr1 of
                    Inl e \<Rightarrow> Inl e
                  | Inr (b, fr2) \<Rightarrow>
                      (case nd_dot (Mat x) w of
                         Inl e \<Rightarrow> Inl e
                       | Inr xw \<Rightarrow>
                           (case nd_add xw b of
                              Inl e \<Rightarrow> Inl e
                            | Inr out \<Rightarrow> Inr (out, fr2)))))"

definition forward_fn_linear1 ::
    "('k \<Rightarrow> real \<Rightarrow> nat list \<Rightarrow> ndarray) \<Rightarrow> f32 array2 \<Rightarrow> (ndarray, 'k) hk" where
  "forward_fn_linear1 tn x = MyLinear1_call tn (MyLinear1 2 None) x"

definition forward_linear1_init ::
    "('k \<Rightarrow> real \<Rightarrow> nat list \<Rightarrow> ndarray) \<Rightarrow> 'k option \<Rightarrow> f32 array2 \<Rightarrow> py_error + params" where
  "forward_linear1_init tn = transform_init (forward_fn_linear1 tn)"

definition forward_linear1_apply ::
    "('k \<Rightarrow> real \<Rightarrow> nat list \<Rightarrow> ndarray) \<Rightarrow> params \<Rightarrow> 'k option \<Rightarrow> f32 array2 \<Rightarrow>
     py_error + ndarray" where
  "forward_linear1_apply tn = transform_apply (forward_fn_linear1 tn)"

definition forward_without_rng_apply ::
    "('k \<Rightarrow> real \<Rightarrow> nat list \<Rightarrow> ndarray) \<Rightarrow> params \<Rightarrow> f32 array2 \<Rightarrow> py_error + ndarray" where
  "forward_without_rng_apply tn = without_apply_rng (forward_linear1_apply tn)"

text \<open>
  \<^verbatim>\<open>
  def stateful_f(x):
    counter = hk.get_state("counter", shape=[], dtype=jnp.int32, init=jnp.ones)
    multiplier = hk.get_parameter('multiplier', shape=[1,], dtype=x.dtype, init=jnp.ones)
    hk.set_state("counter", counter + 1)
    output = x + multiplier * counter
    return output

  stateful_forward = hk.without_apply_rng(hk.transform_with_state(stateful_f))
  \<close>
\<close>

definition stateful_f :: "f32 array2 \<Rightarrow> (ndarray, 'k) hk" where
  "stateful_f x fr =
     (case get_state ''counter'' [] int32 ones_init fr of
        Inl e \<Rightarrow> Inl e
      | Inr (counter, fr1) \<Rightarrow>
          (case get_parameter ''multiplier'' [1] float32 ones_init fr1 of
             Inl e \<Rightarrow> Inl e
           | Inr (multiplier, fr2) \<Rightarrow>
               (case nd_add counter (Int32 1) of
                  Inl e \<Rightarrow> Inl e
                | Inr counter1 \<Rightarrow>
                    (case set_state ''counter'' counter1 fr2 of
                       Inl e \<Rightarrow> Inl e
                     | Inr (u, fr3) \<Rightarrow>
                         (case nd_mul multiplier counter of
                            Inl e \<Rightarrow> Inl e
                          | Inr mc \<Rightarrow>
                              (case nd_add (Mat x) mc of
                                 Inl e \<Rightarrow> Inl e
                               | Inr output \<Rightarrow> Inr (output, fr3)))))))"

definition stateful_forward_init :: "'k option \<Rightarrow> f32 array2 \<Rightarrow> py_error + params \<times> state" where
  "stateful_forward_init rng x = transform_with_state_init stateful_f rng x"

definition stateful_forward_apply :: "params \<Rightarrow> state \<Rightarrow> f32 array2 \<Rightarrow> py_error + ndarray \<times> state" where
  "stateful_forward_apply =
     without_apply_rng_with_state
       (transform_with_state_apply (stateful_f :: f32 array2 \<Rightarrow> (ndarray, unit) hk))"

text \<open>
  \<^verbatim>\<open>
  for i in range(3):
    output, state = stateful_forward.apply(params, state, x=sample_x)
  \<close>
  The loop, for any number of rounds, with the list of the outputs.
\<close>

fun stateful_forward_loop ::
    "nat \<Rightarrow> params \<Rightarrow> state \<Rightarrow> f32 array2 \<Rightarrow> py_error + ndarray list \<times> state" where
  "stateful_forward_loop 0 ps st x = Inr ([], st)"
| "stateful_forward_loop (Suc k) ps st x =
     (case stateful_forward_apply ps st x of
        Inl e \<Rightarrow> Inl e
      | Inr (out, st') \<Rightarrow>
          (case stateful_forward_loop k ps st' x of
             Inl e \<Rightarrow> Inl e
           | Inr (outs, st'') \<Rightarrow> Inr (out # outs, st'')))"


text \<open>The output of the linear layer for weights \<open>w\<close> and bias \<open>b\<close>: entry \<open>(r, c)\<close> is the
  \<open>float32\<close> dot product of row \<open>r\<close> of \<open>x\<close> with column \<open>c\<close> of \<open>w\<close>, plus \<open>b[c]\<close>
  (a name for the proofs).\<close>

definition linear_out :: "f32 array2 \<Rightarrow> f32 array2 \<Rightarrow> f32 list \<Rightarrow> f32 array2" where
  "linear_out x w b =
     \<lparr>ncols = ncols w,
      rows = map (\<lambda>r. map2 f32_add (map (\<lambda>c. f32_dot r (map (\<lambda>wr. wr ! c) (rows w)))
                                      [0..<ncols w]) b) (rows x)\<rparr>"

text \<open>The parameter mapping of the linear module for given weights and bias, and the
  mapping with every array incremented by one.\<close>

definition linear_params :: "f32 array2 \<Rightarrow> f32 list \<Rightarrow> params" where
  "linear_params w b = [''my_linear1'' \<mapsto> [''w'' \<mapsto> Mat w, ''b'' \<mapsto> Vec b]]"

definition mutated_w :: "f32 array2 \<Rightarrow> f32 array2" where
  "mutated_w w = \<lparr>ncols = ncols w, rows = map (map (\<lambda>a. f32_add a (Finite 1))) (rows w)\<rparr>"

definition mutated_b :: "f32 list \<Rightarrow> f32 list" where
  "mutated_b b = map (\<lambda>a. f32_add a (Finite 1)) b"

text \<open>
  The notebook's inputs \<open>sample_x = [[1., 2., 3.]]\<close> and
  \<open>sample_x_2 = [[4., 5., 6.], [7., 8., 9.]]\<close>, and the weights that its transcript prints
  for the key \<open>[0 42]\<close>,
  \<^verbatim>\<open>
  [[-0.30350363,  0.5123802 ],
   [ 0.08009142, -0.3163005 ],
   [ 0.6056666 ,  0.5820702 ]]
  \<close>
  A printed decimal is the shortest one that names its \<open>float32\<close> value; the values
  themselves are the fractions below (\<open>-2545973 / 2^23\<close> for \<open>-0.30350363\<close>, and so on).
\<close>

definition sample_x :: "f32 array2" where
  "sample_x = \<lparr>ncols = 3, rows = [[Finite 1, Finite 2, Finite 3]]\<rparr>"

definition sample_x_2 :: "f32 array2" where
  "sample_x_2 =
     \<lparr>ncols = 3, rows = [[Finite 4, Finite 5, Finite 6], [Finite 7, Finite 8, Finite 9]]\<rparr>"

definition recorded_w :: "f32 array2" where
  "recorded_w =
     \<lparr>ncols = 2,
      rows = [[Finite (- 2545973 / 8388608), Finite (8596313 / 16777216)],
              [Finite (1343711 / 16777216), Finite (- 2653321 / 8388608)],
              [Finite (10161399 / 16777216), Finite (9765517 / 16777216)]]\<rparr>"

section \<open>Properties of the Haiku snippets\<close>

text \<open>The exponent of \<open>x\<close> is the \<open>e\<close> with \<open>2^e \<le> |x| < 2^(e+1)\<close>, and \<open>-126\<close> below
  \<open>2^-126\<close>; the rounding of \<open>x\<close> is a multiple of \<open>2^(e-23)\<close> at most half of it away
  from \<open>x\<close>.\<close>

lemma round_to_even_of_int: "round_to_even (of_int k) = k"
  by (simp add: round_to_even_def)

lemma exponent_bounds:
  assumes "2 powi (- 126) \<le> \<bar>x\<bar>"
  shows "2 powi exponent x \<le> \<bar>x\<bar>" and "\<bar>x\<bar> < 2 powi (exponent x + 1)"
proof -
  define n where "n = \<lfloor>\<bar>x\<bar> * 2 ^ 126\<rfloor>"
  have "1 \<le> \<bar>x\<bar> * 2 ^ 126"
    using assms by (simp add: power_int_def field_simps)
  then have n1: "1 \<le> n"
    by (simp add: n_def le_floor_iff)
  then have pos: "0 < n"
    by simp
  define e where "e = bitlen n - 127"
  have b1: "1 \<le> bitlen n"
    using pos bitlen_eq_zero_iff [of n] bitlen_nonneg [of n] by simp
  then have ex: "exponent x = e"
    by (simp add: exponent_def e_def n_def)
  have lo: "2 ^ nat (bitlen n - 1) \<le> n" and hi: "n < 2 ^ nat (bitlen n)"
    using bitlen_bounds [OF pos] by simp_all
  have scale: "(2 :: real) powi d * 2 ^ 126 = 2 ^ nat (d + 126)" if "- 126 \<le> d" for d
  proof -
    have "(2 :: real) powi d * 2 powi 126 = 2 powi (d + 126)"
      using power_int_add [of "2 :: real" d 126] by simp
    moreover have "d + 126 = int (nat (d + 126))"
      using that by simp
    ultimately have "(2 :: real) powi d * 2 powi 126 = 2 powi int (nat (d + 126))"
      by (simp only:)
    then show ?thesis
      by (simp only: power_int_of_nat) simp
  qed
  have e: "- 126 \<le> e" "nat (e + 126) = nat (bitlen n - 1)" "nat (e + 1 + 126) = nat (bitlen n)"
    using b1 by (simp_all add: e_def)
  have "(2 :: real) powi e * 2 ^ 126 = 2 ^ nat (bitlen n - 1)"
    using scale [of e] e by simp
  also have "\<dots> = real_of_int (2 ^ nat (bitlen n - 1))"
    by simp
  also have "\<dots> \<le> real_of_int n"
    using lo by (simp only: of_int_le_iff)
  also have "\<dots> \<le> \<bar>x\<bar> * 2 ^ 126"
    by (simp add: n_def)
  finally show "2 powi exponent x \<le> \<bar>x\<bar>"
    by (simp add: ex)
  have "n + 1 \<le> 2 ^ nat (bitlen n)"
    using hi by simp
  then have "real_of_int (n + 1) \<le> real_of_int (2 ^ nat (bitlen n))"
    by (simp only: of_int_le_iff)
  then have up: "real_of_int n + 1 \<le> 2 ^ nat (bitlen n)"
    by simp
  have "\<bar>x\<bar> * 2 ^ 126 < real_of_int n + 1"
    by (simp add: n_def)
  also note up
  also have "(2 :: real) ^ nat (bitlen n) = 2 powi (e + 1) * 2 ^ 126"
    using scale [of "e + 1"] e by simp
  finally show "\<bar>x\<bar> < 2 powi (exponent x + 1)"
    by (simp add: ex)
qed

lemma exponent_subnormal:
  assumes "\<bar>x\<bar> < 2 powi (- 126)"
  shows "exponent x = - 126"
proof -
  have "\<bar>x\<bar> * 2 ^ 126 < 1"
    using assms by (simp add: power_int_def field_simps)
  then have "\<lfloor>\<bar>x\<bar> * 2 ^ 126\<rfloor> = 0"
    by (simp add: floor_eq_iff)
  then show ?thesis
    by (simp add: exponent_def)
qed

lemma round_to_even_nearest: "\<bar>of_int (round_to_even q) - q\<bar> \<le> 1 / 2"
proof -
  have "of_int \<lfloor>q\<rfloor> \<le> q" "q < of_int \<lfloor>q\<rfloor> + 1"
    by linarith+
  then show ?thesis
    by (auto simp: round_to_even_def Let_def abs_le_iff)
qed

lemma round_f32_nearest: "\<bar>round_f32 x - x\<bar> \<le> 2 powi (exponent x - 24)"
proof -
  define u :: real where "u = 2 powi (exponent x - 23)"
  have u: "0 < u"
    by (simp add: u_def)
  have "round_f32 x - x = (of_int (round_to_even (x / u)) - x / u) * u"
    using u by (simp add: round_f32_def u_def [symmetric] algebra_simps)
  then have "\<bar>round_f32 x - x\<bar> = \<bar>of_int (round_to_even (x / u)) - x / u\<bar> * u"
    using u by (simp add: abs_mult)
  also have "\<dots> \<le> 1 / 2 * u"
    using u round_to_even_nearest [of "x / u"] by (intro mult_right_mono) simp_all
  also have "1 / 2 * u = 2 powi (exponent x - 24)"
  proof -
    have "(2 :: real) powi (exponent x - 23) = 2 powi (exponent x - 24) * 2 powi 1"
      using power_int_add [of "2 :: real" "exponent x - 24" 1] by simp
    then show ?thesis
      by (simp add: u_def)
  qed
  finally show ?thesis .
qed

text \<open>A rounding is its own rounding, so the operations return values of the format.\<close>

lemma exponent_eqI:
  assumes "2 powi d \<le> \<bar>x\<bar>" and "\<bar>x\<bar> < 2 powi (d + 1)" and "- 126 \<le> d"
  shows "exponent x = d"
proof -
  have mono: "a < b" if "(2 :: real) powi a < 2 powi b" for a b :: int
  proof (rule ccontr)
    assume "\<not> a < b"
    then have "(2 :: real) powi b \<le> 2 powi a"
      by (intro power_int_increasing) simp_all
    with that show False
      by simp
  qed
  have "(2 :: real) powi (- 126) \<le> 2 powi d"
    using assms(3) by (intro power_int_increasing) simp_all
  then have lo: "2 powi (- 126) \<le> \<bar>x\<bar>"
    using assms(1) by simp
  have "(2 :: real) powi exponent x < 2 powi (d + 1)"
    using exponent_bounds(1) [OF lo] assms(2) by simp
  then have "exponent x < d + 1"
    by (rule mono)
  moreover have "(2 :: real) powi d < 2 powi (exponent x + 1)"
    using exponent_bounds(2) [OF lo] assms(1) by simp
  then have "d < exponent x + 1"
    by (rule mono)
  ultimately show ?thesis
    by simp
qed

lemma round_to_even_between: "\<lfloor>q\<rfloor> \<le> round_to_even q" "round_to_even q \<le> \<lceil>q\<rceil>"
  by (auto simp: round_to_even_def Let_def ceiling_altdef)

lemma round_to_even_bound:
  assumes "\<bar>q\<bar> \<le> of_int m"
  shows "\<bar>round_to_even q\<bar> \<le> m"
proof -
  have "- m \<le> \<lfloor>q\<rfloor>" "\<lceil>q\<rceil> \<le> m"
    using assms by (simp_all add: le_floor_iff ceiling_le_iff abs_le_iff)
  then show ?thesis
    using round_to_even_between [of q] by simp
qed

lemma round_to_even_lower:
  assumes "of_int m \<le> \<bar>q\<bar>"
  shows "m \<le> \<bar>round_to_even q\<bar>"
proof (cases "0 \<le> q")
  case True
  then have "m \<le> \<lfloor>q\<rfloor>"
    using assms by (simp add: le_floor_iff)
  then show ?thesis
    using round_to_even_between(1) [of q] by simp
next
  case False
  then have "q \<le> of_int (- m)"
    using assms by simp
  then have "\<lceil>q\<rceil> \<le> - m"
    by (simp only: ceiling_le_iff)
  then show ?thesis
    using round_to_even_between(2) [of q] by simp
qed

lemma round_f32_idem: "round_f32 (round_f32 x) = round_f32 x"
proof -
  define e where "e = exponent x"
  define u :: real where "u = 2 powi (e - 23)"
  define n where "n = round_to_even (x / u)"
  define y where "y = of_int n * u"
  have u: "0 < u"
    by (simp add: u_def)
  have y: "round_f32 x = y"
    by (simp add: round_f32_def Let_def y_def n_def u_def e_def)
  have e126: "- 126 \<le> e"
    by (simp add: e_def exponent_def)
  have scale: "2 powi (e + 1) = 2 ^ 24 * u" "2 powi e = 2 ^ 23 * u"
  proof -
    have "(2 :: real) powi (e + 1) = 2 powi 24 * 2 powi (e - 23)"
      using power_int_add [of "2 :: real" 24 "e - 23"] by (simp add: add.commute)
    then show "2 powi (e + 1) = 2 ^ 24 * u"
      by (simp add: u_def)
    have "(2 :: real) powi e = 2 powi 23 * 2 powi (e - 23)"
      using power_int_add [of "2 :: real" 23 "e - 23"] by simp
    then show "2 powi e = 2 ^ 23 * u"
      by (simp add: u_def)
  qed
  have hi: "\<bar>x\<bar> < 2 powi (e + 1)"
  proof (cases "2 powi (- 126) \<le> \<bar>x\<bar>")
    case True
    then show ?thesis
      unfolding e_def by (rule exponent_bounds(2))
  next
    case False
    then have "\<bar>x\<bar> < 2 powi (- 126)"
      by simp
    also have "(2 :: real) powi (- 126) \<le> 2 powi (e + 1)"
      using e126 by (intro power_int_increasing) simp_all
    finally show ?thesis .
  qed
  have "\<bar>x\<bar> < 2 ^ 24 * u"
    using hi by (simp only: scale)
  then have "\<bar>x / u\<bar> \<le> of_int (2 ^ 24)"
    using u by (simp add: field_simps)
  then have n_hi: "\<bar>n\<bar> \<le> 2 ^ 24"
    unfolding n_def by (rule round_to_even_bound)
  have ay: "\<bar>y\<bar> = of_int \<bar>n\<bar> * u"
    using u by (simp add: y_def abs_mult)
  have int_round: "round_f32 y = y" if "exponent y = e"
    using that u by (simp add: round_f32_def Let_def y_def u_def [symmetric] round_to_even_of_int)
  consider "n = 0" | "\<bar>n\<bar> = 2 ^ 24" | "2 ^ 23 \<le> \<bar>n\<bar>" "\<bar>n\<bar> < 2 ^ 24" | "0 < \<bar>n\<bar>" "\<bar>n\<bar> < 2 ^ 23"
    using n_hi by linarith
  then have "round_f32 y = y"
  proof cases
    case 1
    then show ?thesis
      by (simp add: y_def round_f32_def Let_def round_to_even_def)
  next
    case 2
    then have "\<bar>y\<bar> = 2 ^ 24 * u"
      by (simp add: ay)
    then have "\<bar>y\<bar> = 2 powi (e + 1)"
      by (simp only: scale)
    moreover have "(2 :: real) powi (e + 1) < 2 powi (e + 1 + 1)"
      by (intro power_int_strict_increasing) simp_all
    ultimately have ey: "exponent y = e + 1"
      using e126 by (intro exponent_eqI) simp_all
    have u2: "(2 :: real) powi (e - 22) = 2 * u"
      using power_int_add [of "2 :: real" 1 "e - 23"] by (simp add: u_def add.commute)
    have r: "round_f32 y = of_int (round_to_even (y / (2 * u))) * (2 * u)"
      by (simp add: round_f32_def Let_def ey u2)
    from 2 consider "n = 2 ^ 24" | "n = - (2 ^ 24)"
      by (auto simp: abs_if split: if_splits)
    then show ?thesis
    proof cases
      case 1
      then have yv: "y = 16777216 * u"
        by (simp add: y_def)
      then have "y / (2 * u) = of_int 8388608"
        using u by simp
      then have "round_to_even (y / (2 * u)) = 8388608"
        by (simp only: round_to_even_of_int)
      then have "round_f32 y = of_int 8388608 * (2 * u)"
        by (simp only: r)
      also have "\<dots> = y"
        by (simp add: yv)
      finally show ?thesis .
    next
      case 2
      then have yv: "y = - 16777216 * u"
        by (simp add: y_def)
      then have "y / (2 * u) = of_int (- 8388608)"
        using u by simp
      then have "round_to_even (y / (2 * u)) = - 8388608"
        by (simp only: round_to_even_of_int)
      then have "round_f32 y = of_int (- 8388608) * (2 * u)"
        by (simp only: r)
      also have "\<dots> = y"
        by (simp add: yv)
      finally show ?thesis .
    qed
  next
    case 3
    have "real_of_int (2 ^ 23) \<le> real_of_int \<bar>n\<bar>" "real_of_int \<bar>n\<bar> < real_of_int (2 ^ 24)"
      using 3 by (simp_all only: of_int_le_iff of_int_less_iff)
    then have "2 ^ 23 * u \<le> \<bar>y\<bar>" "\<bar>y\<bar> < 2 ^ 24 * u"
      using u by (simp_all add: ay)
    then have "2 powi e \<le> \<bar>y\<bar>" "\<bar>y\<bar> < 2 powi (e + 1)"
      by (simp_all only: scale)
    then have "exponent y = e"
      using e126 by (intro exponent_eqI)
    then show ?thesis
      by (rule int_round)
  next
    case 4
    have "e = - 126"
    proof (rule ccontr)
      assume "e \<noteq> - 126"
      then have "- 126 < e"
        using e126 by simp
      then have "(2 :: real) powi (- 126) \<le> 2 powi e"
        by (intro power_int_increasing) simp_all
      moreover have "2 powi (- 126) \<le> \<bar>x\<bar> \<Longrightarrow> 2 powi e \<le> \<bar>x\<bar>"
        unfolding e_def by (rule exponent_bounds(1))
      moreover have "\<bar>x\<bar> < 2 powi (- 126) \<Longrightarrow> e = - 126"
        unfolding e_def by (rule exponent_subnormal)
      ultimately have "2 powi e \<le> \<bar>x\<bar>"
        using \<open>e \<noteq> - 126\<close> by fastforce
      then have "2 ^ 23 * u \<le> \<bar>x\<bar>"
        by (simp only: scale)
      then have "of_int (2 ^ 23) \<le> \<bar>x / u\<bar>"
        using u by (simp add: field_simps)
      then have "2 ^ 23 \<le> \<bar>n\<bar>"
        unfolding n_def by (rule round_to_even_lower)
      with 4 show False
        by simp
    qed
    have "real_of_int \<bar>n\<bar> < real_of_int (2 ^ 23)"
      using 4 by (simp only: of_int_less_iff)
    then have "\<bar>y\<bar> < 2 ^ 23 * u"
      using u by (simp add: ay)
    then have "\<bar>y\<bar> < 2 powi e"
      by (simp only: scale)
    then have "exponent y = - 126"
      using \<open>e = - 126\<close> by (intro exponent_subnormal) simp
    then show ?thesis
      using \<open>e = - 126\<close> by (intro int_round) simp
  qed
  then show ?thesis
    by (simp add: y)
qed

lemma is_f32_of_real: "is_f32 (f32_of_real x)"
  by (simp add: is_f32_def f32_of_real_def Let_def round_f32_idem)

lemma is_f32_special: "is_f32 PosInf" "is_f32 NegInf" "is_f32 NaN"
  by (simp_all add: is_f32_def)

lemma is_f32_of_int: "is_f32 (f32_of_int n)"
  by (simp add: f32_of_int_def is_f32_of_real)

lemma is_f32_add: "is_f32 (f32_add a b)"
  by (cases a; cases b) (simp_all add: is_f32_of_real is_f32_special)

lemma is_f32_mul: "is_f32 (f32_mul a b)"
  by (cases a; cases b) (simp_all add: is_f32_of_real is_f32_special)

lemma is_f32_fma: "is_f32 c \<Longrightarrow> is_f32 (f32_fma a b c)"
  by (cases a; cases b; cases c) (simp_all add: is_f32_of_real is_f32_special is_f32_add)

text \<open>An integer of magnitude at most \<open>2^24\<close> is a \<open>float32\<close> number, so it is its own
  rounding.\<close>

lemma exponent_of_int:
  assumes "n \<noteq> 0"
  shows "exponent (of_int n) = bitlen \<bar>n\<bar> - 1"
proof -
  have "\<bar>real_of_int n\<bar> * 2 ^ 126 = of_int (\<bar>n\<bar> * 2 ^ 126)"
    by simp
  then have "\<lfloor>\<bar>real_of_int n\<bar> * 2 ^ 126\<rfloor> = \<bar>n\<bar> * 2 ^ 126"
    by (simp only: floor_of_int)
  moreover have "bitlen (\<bar>n\<bar> * 2 ^ 126) = bitlen \<bar>n\<bar> + 126"
    using assms bitlen_pow2 [of "\<bar>n\<bar>" 126] by simp
  moreover have "0 < bitlen \<bar>n\<bar>"
    using assms bitlen_eq_zero_iff [of "\<bar>n\<bar>"] bitlen_nonneg [of "\<bar>n\<bar>"] by simp
  ultimately show ?thesis
    by (simp add: exponent_def)
qed

lemma round_f32_of_int:
  assumes "\<bar>n\<bar> \<le> 2 ^ 24"
  shows "round_f32 (of_int n) = of_int n"
proof (cases "n = 0")
  case True
  then show ?thesis
    by (simp add: round_f32_def round_to_even_def)
next
  case False
  define e where "e = bitlen \<bar>n\<bar> - 1"
  have ex: "exponent (of_int n) = e"
    using False by (simp add: exponent_of_int e_def)
  have pos: "0 < \<bar>n\<bar>"
    using False by simp
  have lo: "2 ^ nat e \<le> \<bar>n\<bar>" and hi: "\<bar>n\<bar> < 2 ^ nat (e + 1)"
    using bitlen_bounds [OF pos] by (simp_all add: e_def)
  have e0: "0 \<le> e"
    using pos bitlen_eq_zero_iff [of "\<bar>n\<bar>"] bitlen_nonneg [of "\<bar>n\<bar>"] by (simp add: e_def)
  have "(2 :: int) ^ nat e < 2 ^ 25"
    using lo assms by simp
  then have "nat e < 25"
    by (simp only: power_strict_increasing_iff) 
  then have e24: "e \<le> 24"
    by simp
  show ?thesis
  proof (cases "e \<le> 23")
    case True
    define d where "d = nat (23 - e)"
    have u: "(2 :: real) powi (e - 23) = 1 / 2 ^ d"
      using True by (simp add: power_int_def d_def field_simps)
    have "real_of_int n / (1 / 2 ^ d) = of_int (n * 2 ^ d)"
      by simp
    then have "round_to_even (real_of_int n / (1 / 2 ^ d)) = n * 2 ^ d"
      by (simp only: round_to_even_of_int)
    then show ?thesis
      by (simp add: round_f32_def ex u)
  next
    case False
    with e24 have e: "e = 24"
      by simp
    with lo assms have "\<bar>n\<bar> = 2 ^ 24"
      by simp
    then consider "n = 2 ^ 24" | "n = - (2 ^ 24)"
      by (auto simp: abs_if split: if_splits)
    then show ?thesis
    proof cases
      case 1
      have "round_to_even (16777216 / 2) = 8388608"
        by (simp add: round_to_even_def)
      with 1 ex e show ?thesis
        by (simp add: round_f32_def)
    next
      case 2
      have "round_to_even (- 16777216 / 2) = - 8388608"
        by (simp add: round_to_even_def)
      with 2 ex e show ?thesis
        by (simp add: round_f32_def)
    qed
  qed
qed

lemma f32_of_real_of_int:
  assumes "\<bar>n\<bar> \<le> 2 ^ 24"
  shows "f32_of_real (of_int n) = Finite (of_int n)"
proof -
  have "\<bar>real_of_int n\<bar> \<le> 2 ^ 24"
    using assms by (metis of_int_abs of_int_le_iff of_int_numeral of_int_power)
  then have "real_of_int n < 2 ^ 128" "- (2 ^ 128) < real_of_int n"
    by (simp_all add: abs_le_iff)
  then show ?thesis
    by (simp add: f32_of_real_def round_f32_of_int [OF assms])
qed

lemma f32_of_real_of_nat:
  assumes "n \<le> 2 ^ 24"
  shows "f32_of_real (real n) = Finite (real n)"
  using f32_of_real_of_int [of "int n"] assms by simp

lemmas f32_eval = f32_of_real_def round_f32_def round_to_even_def exponent_def Let_def
  compute_bitlen power_int_def power_divide

text \<open>The parameter mapping, the frame and broadcasting.\<close>

lemma map_entries_empty: "map_entries h Map.empty = Map.empty"
  by (rule ext) (simp add: map_entries_def)

lemma map_entries_upd: "map_entries h (m(n \<mapsto> v)) = (map_entries h m)(n \<mapsto> h v)"
  by (rule ext) (simp add: map_entries_def)

lemma entries_of_upd: "entries_of (m(n \<mapsto> b)) n = b"
  by (simp add: entries_of_def)

lemma entries_of_empty: "entries_of Map.empty n = Map.empty"
  by (simp add: entries_of_def)

lemma broadcast_dim_one: "broadcast_dim n 1 = Some n" "broadcast_dim n (Suc 0) = Some n"
  by (auto simp: broadcast_dim_def)

lemma broadcast_dim_same: "broadcast_dim n n = Some n"
  by (simp add: broadcast_dim_def)

lemma stretch_single: "stretch n [v] = replicate n v"
proof (cases "n = 1")
  case True
  then show ?thesis
    by (simp add: stretch_def)
next
  case False
  then show ?thesis
    by (auto simp: stretch_def)
qed

lemma stretch_same: "length xs = n \<Longrightarrow> stretch n xs = xs"
  by (simp add: stretch_def)

lemma broadcast2_scalar_row:
  assumes "wf_array2 x"
  shows "broadcast2 op x \<lparr>ncols = 1, rows = [[v]]\<rparr> =
     Inr \<lparr>ncols = ncols x, rows = map (map (\<lambda>a. op a v)) (rows x)\<rparr>"
proof -
  have len: "\<forall>i < length (rows x). length (rows x ! i) = ncols x"
    using assms by (simp add: wf_array2_def list_all_iff)
  have "map2 (\<lambda>ra rb. map2 op (stretch (ncols x) ra) (stretch (ncols x) rb))
          (stretch (length (rows x)) (rows x)) (stretch (length (rows x)) [[v]])
      = map (map (\<lambda>a. op a v)) (rows x)"
  proof (rule nth_equalityI)
    show "length (map2 (\<lambda>ra rb. map2 op (stretch (ncols x) ra) (stretch (ncols x) rb))
          (stretch (length (rows x)) (rows x)) (stretch (length (rows x)) [[v]]))
      = length (map (map (\<lambda>a. op a v)) (rows x))"
      by (simp add: stretch_same stretch_single)
  next
    fix i
    assume "i < length (map2 (\<lambda>ra rb. map2 op (stretch (ncols x) ra) (stretch (ncols x) rb))
          (stretch (length (rows x)) (rows x)) (stretch (length (rows x)) [[v]]))"
    then have i: "i < length (rows x)"
      by (simp add: stretch_same stretch_single)
    then have row: "length (rows x ! i) = ncols x"
      using len by simp
    have sv: "stretch (length (rows x)) [[v]] ! i = [v]"
      using i by (simp add: stretch_single)
    have "map2 op (rows x ! i) (stretch (ncols x) [v]) = map (\<lambda>a. op a v) (rows x ! i)"
      using row by (intro nth_equalityI) (simp_all add: stretch_single)
    with i row sv show "map2 (\<lambda>ra rb. map2 op (stretch (ncols x) ra) (stretch (ncols x) rb))
          (stretch (length (rows x)) (rows x)) (stretch (length (rows x)) [[v]]) ! i
      = map (map (\<lambda>a. op a v)) (rows x) ! i"
      by (simp add: stretch_same stretch_single)
  qed
  then show ?thesis
    by (simp add: broadcast2_def broadcast_dim_one)
qed

lemma of_matrix_2: "of_matrix (max 2 r) m = Mat m" if "r \<le> 2"
proof -
  have "max 2 r = Suc (Suc 0)"
    using that by simp
  then show ?thesis
    by simp
qed

lemmas broadcast2_scalar_row_Suc = broadcast2_scalar_row [unfolded One_nat_def]

lemma stateful_f_step:
  assumes "wf_array2 x"
  shows "stateful_f x \<lparr>fr_params = [''~'' \<mapsto> [''multiplier'' \<mapsto> Vec [m]]],
                        fr_state = [''~'' \<mapsto> [''counter'' \<mapsto> (i0, Int32 c)]],
                        fr_rng = r, fr_frozen = z, fr_module = ''~''\<rparr> =
     Inr (Mat \<lparr>ncols = ncols x,
               rows = map (map (\<lambda>a. f32_add a (f32_mul m (f32_of_int (sint c))))) (rows x)\<rparr>,
          \<lparr>fr_params = [''~'' \<mapsto> [''multiplier'' \<mapsto> Vec [m]]],
           fr_state = [''~'' \<mapsto> [''counter'' \<mapsto> (i0, Int32 (c + 1))]],
           fr_rng = r, fr_frozen = z, fr_module = ''~''\<rparr>)"
proof -
  have mc: "nd_mul (Vec [m]) (Int32 c) = Inr (Vec [f32_mul m (f32_of_int (sint c))])"
    by (simp add: nd_mul_def nd_binop_def broadcast2_def broadcast_dim_def stretch_def)
  have out: "nd_add (Mat x) (Vec [f32_mul m (f32_of_int (sint c))]) =
      Inr (Mat \<lparr>ncols = ncols x,
                rows = map (map (\<lambda>a. f32_add a (f32_mul m (f32_of_int (sint c))))) (rows x)\<rparr>)"
    by (simp add: nd_add_def nd_binop_def broadcast2_scalar_row_Suc [OF assms] of_matrix_2
        del: max.absorb1 max.absorb2 max.absorb3 max.absorb4)
  have c1: "nd_add (Int32 c) (Int32 1) = Inr (Int32 (c + 1))"
    by (simp add: nd_add_def nd_binop_def)
  show ?thesis
    by (simp add: stateful_f_def get_state_def get_parameter_def set_state_def entries_of_def
        mc out c1)
qed

lemma nd_add_Mat_Vec1_ok: "\<exists>out. nd_add (Mat x) (Vec [v]) = Inr out"
  by (simp add: nd_add_def nd_binop_def broadcast2_def broadcast_dim_one)

lemma stateful_forward_init_eq:
  "stateful_forward_init rng x =
     Inr ([''~'' \<mapsto> [''multiplier'' \<mapsto> Vec [Finite 1]]], [''~'' \<mapsto> [''counter'' \<mapsto> Int32 1]])"
proof -
  obtain mc where mc: "nd_mul (Vec [Finite 1]) (Int32 1) = Inr (Vec [mc])"
    by (simp add: nd_mul_def nd_binop_def broadcast2_def broadcast_dim_def stretch_def)
  obtain out where out: "nd_add (Mat x) (Vec [mc]) = Inr out"
    using nd_add_Mat_Vec1_ok by blast
  have c1: "nd_add (Int32 1) (Int32 1) = Inr (Int32 2)"
    by (simp add: nd_add_def nd_binop_def)
  show ?thesis
    by (simp add: stateful_forward_init_def transform_with_state_init_def init_frame_def stateful_f_def
        get_state_def get_parameter_def set_state_def entries_of_def ones_init_def
        mc out c1 initial_state_def map_entries_upd map_entries_empty)
qed

lemma stateful_forward_apply_step:
  assumes "wf_array2 x"
  shows "stateful_forward_apply [''~'' \<mapsto> [''multiplier'' \<mapsto> Vec [m]]]
           [''~'' \<mapsto> [''counter'' \<mapsto> Int32 c]] x =
     Inr (Mat \<lparr>ncols = ncols x,
               rows = map (map (\<lambda>a. f32_add a (f32_mul m (f32_of_int (sint c))))) (rows x)\<rparr>,
          [''~'' \<mapsto> [''counter'' \<mapsto> Int32 (c + 1)]])"
  by (simp add: stateful_forward_apply_def without_apply_rng_with_state_def
      transform_with_state_apply_def apply_frame_def state_pairs_def
      current_state_def map_entries_upd map_entries_empty stateful_f_step [OF assms])

lemma stateful_forward_loop_from:
  assumes "wf_array2 x"
  shows "stateful_forward_loop k [''~'' \<mapsto> [''multiplier'' \<mapsto> Vec [m]]]
           [''~'' \<mapsto> [''counter'' \<mapsto> Int32 c]] x =
     Inr (map (\<lambda>i. Mat \<lparr>ncols = ncols x,
                        rows = map (map (\<lambda>a. f32_add a
                                 (f32_mul m (f32_of_int (sint (c + of_nat i)))))) (rows x)\<rparr>)
            [0..<k],
          [''~'' \<mapsto> [''counter'' \<mapsto> Int32 (c + of_nat k)]])"
proof (induction k arbitrary: c)
  case 0
  show ?case by simp
next
  case (Suc k)
  let ?ps = "[''~'' \<mapsto> [''multiplier'' \<mapsto> Vec [m]]]"
  let ?out = "\<lambda>d. Mat \<lparr>ncols = ncols x,
                         rows = map (map (\<lambda>a. f32_add a (f32_mul m (f32_of_int (sint d)))))
                                  (rows x)\<rparr>"
  have shift: "c + 1 + of_nat i = c + of_nat (Suc i)" for i
    by simp
  have step: "stateful_forward_apply ?ps [''~'' \<mapsto> [''counter'' \<mapsto> Int32 c]] x =
      Inr (?out c, [''~'' \<mapsto> [''counter'' \<mapsto> Int32 (c + 1)]])"
    by (rule stateful_forward_apply_step [OF assms])
  have rest: "stateful_forward_loop k ?ps [''~'' \<mapsto> [''counter'' \<mapsto> Int32 (c + 1)]] x =
      Inr (map (\<lambda>i. ?out (c + of_nat (Suc i))) [0..<k],
           [''~'' \<mapsto> [''counter'' \<mapsto> Int32 (c + of_nat (Suc k))]])"
    using Suc [of "c + 1"] by (simp only: shift)
  have "stateful_forward_loop (Suc k) ?ps [''~'' \<mapsto> [''counter'' \<mapsto> Int32 c]] x =
      Inr (?out c # map (\<lambda>i. ?out (c + of_nat (Suc i))) [0..<k],
           [''~'' \<mapsto> [''counter'' \<mapsto> Int32 (c + of_nat (Suc k))]])"
    by (simp only: stateful_forward_loop.simps step rest sum.case prod.case)
  moreover have "map (\<lambda>i. ?out (c + of_nat i)) [0..<Suc k] =
      ?out c # map (\<lambda>i. ?out (c + of_nat (Suc i))) [0..<k]"
    by (simp only: map_upt_Suc) simp
  ultimately show ?case
    by (simp only:)
qed

lemma sint_of_nat_id:
  assumes "n < 2 ^ 31"
  shows "sint (of_nat n :: i32) = int n"
proof -
  have "in_i32 (int n)"
    using assms by (simp add: in_i32_def)
  then have "sint (word_of_int (int n) :: i32) = int n"
    by (rule sint_of_int_id)
  then show ?thesis
    by simp
qed

lemma stateful_forward_loop_counter:
  assumes "k + 1 < 2 ^ 31"
  shows "\<exists>outs. stateful_forward_loop k [''~'' \<mapsto> [''multiplier'' \<mapsto> Vec [Finite 1]]]
                 [''~'' \<mapsto> [''counter'' \<mapsto> Int32 1]] \<lparr>ncols = 1, rows = [[Finite 5]]\<rparr> =
               Inr (outs, [''~'' \<mapsto> [''counter'' \<mapsto> Int32 (of_nat (k + 1))]]) \<and>
             length outs = k"
proof -
  have wf: "wf_array2 \<lparr>ncols = 1, rows = [[Finite 5]]\<rparr>"
    by (simp add: wf_array2_def)
  have cnt: "(1 :: i32) + of_nat k = of_nat (k + 1)"
    by simp
  show ?thesis
    by (simp only: stateful_forward_loop_from [OF wf] cnt) simp
qed

lemma counter_output_exact:
  assumes "i + 5 \<le> 2 ^ 24"
  shows "f32_add (Finite 5) (f32_mul (Finite 1) (f32_of_int (sint (of_nat i :: i32)))) =
     Finite (5 + real i)"
proof -
  have "i < 2 ^ 31"
    using assms by simp
  then have "sint (of_nat i :: i32) = int i"
    by (rule sint_of_nat_id)
  moreover have "f32_of_real (real i) = Finite (real i)"
    using assms by (intro f32_of_real_of_nat) simp
  moreover have "f32_of_real (5 + real i) = Finite (5 + real i)"
    using f32_of_real_of_nat [of "5 + i"] assms by (simp add: add.commute)
  ultimately show ?thesis
    by (simp add: f32_of_int_def)
qed

lemma stateful_forward_loop_initial:
  assumes "k + 5 \<le> 2 ^ 24"
  shows "stateful_forward_loop k [''~'' \<mapsto> [''multiplier'' \<mapsto> Vec [Finite 1]]]
           [''~'' \<mapsto> [''counter'' \<mapsto> Int32 1]] \<lparr>ncols = 1, rows = [[Finite 5]]\<rparr> =
     Inr (map (\<lambda>i. Mat \<lparr>ncols = 1, rows = [[Finite (5 + real i)]]\<rparr>) [1..<Suc k],
          [''~'' \<mapsto> [''counter'' \<mapsto> Int32 (of_nat (k + 1))]])"
proof -
  let ?x = "\<lparr>ncols = 1, rows = [[Finite 5]]\<rparr>"
  let ?G = "\<lambda>i. Mat \<lparr>ncols = 1, rows = [[Finite (5 + real i)]]\<rparr>"
  let ?F = "\<lambda>i. Mat \<lparr>ncols = ncols ?x,
                       rows = map (map (\<lambda>a. f32_add a
                                (f32_mul (Finite 1) (f32_of_int (sint (1 + of_nat i :: i32))))))
                                (rows ?x)\<rparr>"
  have wf: "wf_array2 ?x"
    by (simp add: wf_array2_def)
  have "map ?F [0..<k] = map (\<lambda>i. ?G (Suc i)) [0..<k]"
  proof (rule map_cong [OF refl])
    fix i
    assume "i \<in> set [0..<k]"
    then have "Suc i + 5 \<le> 2 ^ 24"
      using assms by simp
    then have "f32_add (Finite 5) (f32_mul (Finite 1) (f32_of_int (sint (of_nat (Suc i) :: i32)))) =
        Finite (5 + real (Suc i))"
      by (rule counter_output_exact)
    moreover have "(1 + of_nat i :: i32) = of_nat (Suc i)"
      by simp
    ultimately have "f32_add (Finite 5) (f32_mul (Finite 1) (f32_of_int (sint (1 + of_nat i :: i32)))) =
        Finite (5 + real (Suc i))"
      by (simp only:)
    then show "?F i = ?G (Suc i)"
      by (simp del: of_nat_Suc)
  qed
  also have "\<dots> = map ?G (map Suc [0..<k])"
    by (simp add: comp_def del: of_nat_Suc)
  also have "map Suc [0..<k] = [1..<Suc k]"
    by (simp only: map_Suc_upt One_nat_def)
  finally have outs: "map ?F [0..<k] = map ?G [1..<Suc k]" .
  have cnt: "(1 :: i32) + of_nat k = of_nat (k + 1)"
    by simp
  show ?thesis
    by (simp only: stateful_forward_loop_from [OF wf] outs cnt)
qed

text \<open>
  Claim C6, as amended. \<open>init\<close> returns the parameters \<open>multiplier = [1.]\<close> and the state
  \<open>counter = 1\<close>. Every \<open>apply(params, state, x)\<close> on a mapping with a one-element
  \<open>multiplier\<close> and an \<open>int32\<close> \<open>counter\<close> returns \<open>x + multiplier * counter\<close> computed in
  \<open>float32\<close> (the counter before the call converted to \<open>float32\<close>, the product and the sum
  rounded) and the state with \<open>counter + 1\<close> in \<open>int32\<close>: one more below \<open>2^31 - 1\<close>,
  wrapping around there. After \<open>k\<close> rounds from the initial state the counter is \<open>k + 1\<close>
  while \<open>k + 1 < 2^31\<close>, and with \<open>x = [[5.]]\<close> the outputs are \<open>[[6.]], ..., [[5 + k]]\<close>
  while \<open>k + 5 \<le> 2^24\<close>, the range in which \<open>float32\<close> holds these integers exactly.
\<close>

theorem stateful_counter:
  "stateful_forward_init rng x =
     Inr ([''~'' \<mapsto> [''multiplier'' \<mapsto> Vec [Finite 1]]], [''~'' \<mapsto> [''counter'' \<mapsto> Int32 1]]) \<and>
   (wf_array2 x \<longrightarrow>
      stateful_forward_apply [''~'' \<mapsto> [''multiplier'' \<mapsto> Vec [m]]]
          [''~'' \<mapsto> [''counter'' \<mapsto> Int32 c]] x =
        Inr (Mat \<lparr>ncols = ncols x,
                  rows = map (map (\<lambda>a. f32_add a (f32_mul m (f32_of_int (sint c))))) (rows x)\<rparr>,
             [''~'' \<mapsto> [''counter'' \<mapsto> Int32 (c + 1)]])) \<and>
   (sint c < 2 ^ 31 - 1 \<longrightarrow> sint (c + 1) = sint c + 1) \<and>
   (k + 1 < 2 ^ 31 \<longrightarrow>
      (\<exists>outs. stateful_forward_loop k [''~'' \<mapsto> [''multiplier'' \<mapsto> Vec [Finite 1]]]
                 [''~'' \<mapsto> [''counter'' \<mapsto> Int32 1]] \<lparr>ncols = 1, rows = [[Finite 5]]\<rparr> =
               Inr (outs, [''~'' \<mapsto> [''counter'' \<mapsto> Int32 (of_nat (k + 1))]]) \<and>
             length outs = k) \<and>
      sint (of_nat (k + 1) :: i32) = int k + 1) \<and>
   (k + 5 \<le> 2 ^ 24 \<longrightarrow>
      stateful_forward_loop k [''~'' \<mapsto> [''multiplier'' \<mapsto> Vec [Finite 1]]]
          [''~'' \<mapsto> [''counter'' \<mapsto> Int32 1]] \<lparr>ncols = 1, rows = [[Finite 5]]\<rparr> =
        Inr (map (\<lambda>i. Mat \<lparr>ncols = 1, rows = [[Finite (5 + real i)]]\<rparr>) [1..<Suc k],
             [''~'' \<mapsto> [''counter'' \<mapsto> Int32 (of_nat (k + 1))]]))"
proof (intro conjI impI)
  show "stateful_forward_init rng x =
     Inr ([''~'' \<mapsto> [''multiplier'' \<mapsto> Vec [Finite 1]]], [''~'' \<mapsto> [''counter'' \<mapsto> Int32 1]])"
    by (rule stateful_forward_init_eq)
next
  assume "wf_array2 x"
  then show "stateful_forward_apply [''~'' \<mapsto> [''multiplier'' \<mapsto> Vec [m]]]
          [''~'' \<mapsto> [''counter'' \<mapsto> Int32 c]] x =
        Inr (Mat \<lparr>ncols = ncols x,
                  rows = map (map (\<lambda>a. f32_add a (f32_mul m (f32_of_int (sint c))))) (rows x)\<rparr>,
             [''~'' \<mapsto> [''counter'' \<mapsto> Int32 (c + 1)]])"
    by (rule stateful_forward_apply_step)
next
  assume "sint c < 2 ^ 31 - 1"
  then show "sint (c + 1) = sint c + 1"
    by (rule sint_succ)
next
  assume k: "k + 1 < 2 ^ 31"
  then show "\<exists>outs. stateful_forward_loop k [''~'' \<mapsto> [''multiplier'' \<mapsto> Vec [Finite 1]]]
                 [''~'' \<mapsto> [''counter'' \<mapsto> Int32 1]] \<lparr>ncols = 1, rows = [[Finite 5]]\<rparr> =
               Inr (outs, [''~'' \<mapsto> [''counter'' \<mapsto> Int32 (of_nat (k + 1))]]) \<and>
             length outs = k"
    by (rule stateful_forward_loop_counter)
  show "sint (of_nat (k + 1) :: i32) = int k + 1"
    using sint_of_nat_id [OF k] by simp
next
  assume "k + 5 \<le> 2 ^ 24"
  then show "stateful_forward_loop k [''~'' \<mapsto> [''multiplier'' \<mapsto> Vec [Finite 1]]]
          [''~'' \<mapsto> [''counter'' \<mapsto> Int32 1]] \<lparr>ncols = 1, rows = [[Finite 5]]\<rparr> =
        Inr (map (\<lambda>i. Mat \<lparr>ncols = 1, rows = [[Finite (5 + real i)]]\<rparr>) [1..<Suc k],
             [''~'' \<mapsto> [''counter'' \<mapsto> Int32 (of_nat (k + 1))]])"
    by (rule stateful_forward_loop_initial)
qed

theorem stateful_counter_witness:
  "wf_array2 \<lparr>ncols = 1, rows = [[Finite 5]]\<rparr> \<and>
   stateful_forward_init (Some (0 :: i32, 42 :: i32)) \<lparr>ncols = 1, rows = [[Finite 5]]\<rparr> =
     Inr ([''~'' \<mapsto> [''multiplier'' \<mapsto> Vec [Finite 1]]], [''~'' \<mapsto> [''counter'' \<mapsto> Int32 1]]) \<and>
   stateful_forward_apply [''~'' \<mapsto> [''multiplier'' \<mapsto> Vec [Finite 1]]]
       [''~'' \<mapsto> [''counter'' \<mapsto> Int32 1]] \<lparr>ncols = 1, rows = [[Finite 5]]\<rparr> =
     Inr (Mat \<lparr>ncols = 1, rows = [[Finite 6]]\<rparr>, [''~'' \<mapsto> [''counter'' \<mapsto> Int32 2]]) \<and>
   stateful_forward_loop 3 [''~'' \<mapsto> [''multiplier'' \<mapsto> Vec [Finite 1]]]
       [''~'' \<mapsto> [''counter'' \<mapsto> Int32 1]] \<lparr>ncols = 1, rows = [[Finite 5]]\<rparr> =
     Inr ([Mat \<lparr>ncols = 1, rows = [[Finite 6]]\<rparr>, Mat \<lparr>ncols = 1, rows = [[Finite 7]]\<rparr>,
           Mat \<lparr>ncols = 1, rows = [[Finite 8]]\<rparr>],
          [''~'' \<mapsto> [''counter'' \<mapsto> Int32 4]])"
proof -
  have wf: "wf_array2 \<lparr>ncols = 1, rows = [[Finite 5]]\<rparr>"
    by (simp add: wf_array2_def)
  have r: "(3 :: nat) + 5 \<le> 2 ^ 24" "sint (1 :: i32) < 2 ^ 31 - 1"
    by simp_all
  have l: "[Suc 0..<4] = [1, 2, 3]"
    by (simp add: upt_rec)
  have v: "f32_add (Finite 5) (f32_mul (Finite 1) (f32_of_int 1)) = Finite 6"
    by (simp add: f32_of_int_def f32_eval)
  show ?thesis
    using stateful_counter [of "Some (0 :: i32, 42 :: i32)" "\<lparr>ncols = 1, rows = [[Finite 5]]\<rparr>"
        "Finite 1" 1 3] wf r
    by (simp add: l v)
qed

text \<open>
  Claim C6 as stated lets every \<open>apply\<close> return \<open>x + multiplier * counter\<close> and increment
  the counter by exactly one. With \<open>x = [[5.]]\<close> and \<open>multiplier = [1.]\<close>: from the state
  \<open>counter = 16777212\<close> the output is \<open>[[16777216.]]\<close>, not \<open>[[16777217.]]\<close>, which
  \<open>float32\<close> does not hold; from the state \<open>counter = 2147483647\<close> the output is
  \<open>[[2147483648.]]\<close> and the next state is \<open>counter = -2147483648\<close>.
\<close>

theorem counter_rounds_and_wraps:
  "stateful_forward_apply [''~'' \<mapsto> [''multiplier'' \<mapsto> Vec [Finite 1]]]
     [''~'' \<mapsto> [''counter'' \<mapsto> Int32 16777212]] \<lparr>ncols = 1, rows = [[Finite 5]]\<rparr> =
     Inr (Mat \<lparr>ncols = 1, rows = [[Finite 16777216]]\<rparr>,
          [''~'' \<mapsto> [''counter'' \<mapsto> Int32 16777213]]) \<and>
   stateful_forward_apply [''~'' \<mapsto> [''multiplier'' \<mapsto> Vec [Finite 1]]]
     [''~'' \<mapsto> [''counter'' \<mapsto> Int32 2147483647]] \<lparr>ncols = 1, rows = [[Finite 5]]\<rparr> =
     Inr (Mat \<lparr>ncols = 1, rows = [[Finite 2147483648]]\<rparr>,
          [''~'' \<mapsto> [''counter'' \<mapsto> Int32 (- 2147483648)]]) \<and>
   sint (2147483647 :: i32) = 2147483647 \<and>
   sint (- 2147483648 :: i32) = - 2147483648"
proof -
  have wf: "wf_array2 \<lparr>ncols = 1, rows = [[Finite 5]]\<rparr>"
    by (simp add: wf_array2_def)
  have a: "f32_add (Finite 5) (f32_mul (Finite 1) (f32_of_int (sint (16777212 :: i32)))) =
      Finite 16777216"
    by (simp add: f32_of_int_def f32_eval)
  have b: "f32_add (Finite 5) (f32_mul (Finite 1) (f32_of_int (sint (2147483647 :: i32)))) =
      Finite 2147483648"
    by (simp add: f32_of_int_def f32_eval)
  have c: "(16777212 + 1 :: i32) = 16777213" "(2147483647 + 1 :: i32) = - 2147483648"
    by simp_all
  have sel: "ncols \<lparr>ncols = 1, rows = [[Finite 5]]\<rparr> = 1"
      "map (map h) (rows \<lparr>ncols = 1 :: nat, rows = [[Finite 5]]\<rparr>) = [[h (Finite 5)]]" for h
    by simp_all
  have "stateful_forward_apply [''~'' \<mapsto> [''multiplier'' \<mapsto> Vec [Finite 1]]]
     [''~'' \<mapsto> [''counter'' \<mapsto> Int32 16777212]] \<lparr>ncols = 1, rows = [[Finite 5]]\<rparr> =
     Inr (Mat \<lparr>ncols = 1, rows = [[Finite 16777216]]\<rparr>,
          [''~'' \<mapsto> [''counter'' \<mapsto> Int32 16777213]])"
    by (simp only: stateful_forward_apply_step [OF wf] sel a c)
  moreover have "stateful_forward_apply [''~'' \<mapsto> [''multiplier'' \<mapsto> Vec [Finite 1]]]
     [''~'' \<mapsto> [''counter'' \<mapsto> Int32 2147483647]] \<lparr>ncols = 1, rows = [[Finite 5]]\<rparr> =
     Inr (Mat \<lparr>ncols = 1, rows = [[Finite 2147483648]]\<rparr>,
          [''~'' \<mapsto> [''counter'' \<mapsto> Int32 (- 2147483648)]])"
    by (simp only: stateful_forward_apply_step [OF wf] sel b c)
  moreover have "sint (2147483647 :: i32) = 2147483647" "sint (- 2147483648 :: i32) = - 2147483648"
    by simp_all
  ultimately show ?thesis
    by (simp only:)
qed

lemma broadcast2_row:
  assumes "wf_array2 m" and "length v = ncols m"
  shows "broadcast2 op m \<lparr>ncols = length v, rows = [v]\<rparr> =
     Inr \<lparr>ncols = ncols m, rows = map (\<lambda>r. map2 op r v) (rows m)\<rparr>"
proof -
  have len: "\<forall>i < length (rows m). length (rows m ! i) = ncols m"
    using assms(1) by (simp add: wf_array2_def list_all_iff)
  have "map2 (\<lambda>ra rb. map2 op (stretch (ncols m) ra) (stretch (ncols m) rb))
          (stretch (length (rows m)) (rows m)) (stretch (length (rows m)) [v])
      = map (\<lambda>r. map2 op r v) (rows m)"
    using len assms(2)
    by (intro nth_equalityI) (simp_all add: stretch_same stretch_single)
  then show ?thesis
    using assms(2) by (simp add: broadcast2_def broadcast_dim_one broadcast_dim_same)
qed

lemma wf_matmul:
  assumes "ncols x = length (rows w)"
  shows "matmul x w = Inr \<lparr>ncols = ncols w,
      rows = map (\<lambda>r. map (\<lambda>c. f32_dot r (map (\<lambda>wr. wr ! c) (rows w)))
                       [0..<ncols w]) (rows x)\<rparr>"
    and "wf_array2 \<lparr>ncols = ncols w,
      rows = map (\<lambda>r. map (\<lambda>c. f32_dot r (map (\<lambda>wr. wr ! c) (rows w)))
                       [0..<ncols w]) (rows x)\<rparr>"
  using assms by (simp_all add: matmul_def wf_array2_def list_all_iff)

lemma linear_layer:
  assumes "ncols x = length (rows w)" and "length b = ncols w"
  shows "\<exists>xw. nd_dot (Mat x) (Mat w) = Inr xw \<and> nd_add xw (Vec b) = Inr (Mat (linear_out x w b))"
proof -
  let ?xw = "\<lparr>ncols = ncols w,
      rows = map (\<lambda>r. map (\<lambda>c. f32_dot r (map (\<lambda>wr. wr ! c) (rows w)))
                       [0..<ncols w]) (rows x)\<rparr>"
  have d: "nd_dot (Mat x) (Mat w) = Inr (Mat ?xw)"
    by (simp add: wf_matmul(1) [OF assms(1)])
  have "broadcast2 f32_add ?xw \<lparr>ncols = length b, rows = [b]\<rparr> =
      Inr \<lparr>ncols = ncols ?xw, rows = map (\<lambda>r. map2 f32_add r b) (rows ?xw)\<rparr>"
    using assms(2) by (intro broadcast2_row wf_matmul(2) [OF assms(1)]) simp
  then have "nd_add (Mat ?xw) (Vec b) = Inr (Mat (linear_out x w b))"
    by (simp add: nd_add_def nd_binop_def of_matrix_2 linear_out_def comp_def
        del: max.absorb1 max.absorb2 max.absorb3 max.absorb4)
  with d show ?thesis
    by blast
qed

lemma forward_fn_linear1_frozen:
  assumes "length (rows w) = ncols x" and "ncols w = 2" and "length b = 2"
  shows "forward_fn_linear1 tn x
           \<lparr>fr_params = [''my_linear1'' \<mapsto> [''w'' \<mapsto> Mat w, ''b'' \<mapsto> Vec b]],
            fr_state = s, fr_rng = r, fr_frozen = z, fr_module = m0\<rparr> =
     Inr (Mat (linear_out x w b),
          \<lparr>fr_params = [''my_linear1'' \<mapsto> [''w'' \<mapsto> Mat w, ''b'' \<mapsto> Vec b]],
           fr_state = s, fr_rng = r, fr_frozen = z, fr_module = m0\<rparr>)"
proof -
  obtain xw where xw: "nd_dot (Mat x) (Mat w) = Inr xw"
      "nd_add xw (Vec b) = Inr (Mat (linear_out x w b))"
    using linear_layer [of x w b] assms by auto
  show ?thesis
    using assms
    by (simp add: forward_fn_linear1_def MyLinear1_call_def MyLinear1_def in_module_def
        get_parameter_def entries_of_def xw del: nd_dot.simps)
qed

lemma forward_linear1_apply_eq:
  assumes "length (rows w) = ncols x" and "ncols w = 2" and "length b = 2"
  shows "forward_linear1_apply tn
           [''my_linear1'' \<mapsto> [''w'' \<mapsto> Mat w, ''b'' \<mapsto> Vec b]] rng x =
     Inr (Mat (linear_out x w b))"
  by (simp add: forward_linear1_apply_def transform_apply_def transform_with_state_apply_def apply_frame_def state_pairs_def
      current_state_def map_entries_empty forward_fn_linear1_frozen [OF assms])

lemma forward_without_rng_apply_eq:
  assumes "length (rows w) = ncols x" and "ncols w = 2" and "length b = 2"
  shows "forward_without_rng_apply tn (linear_params w b) x = Inr (Mat (linear_out x w b))"
  by (simp only: forward_without_rng_apply_def without_apply_rng_def linear_params_def
      forward_linear1_apply_eq [OF assms])

lemma forward_linear1_init_eq:
  assumes "shape (tn k (1 / sqrt (real (ncols x))) [ncols x, 2]) = [ncols x, 2]"
  shows "forward_linear1_init tn (Some k) x =
     Inr [''my_linear1'' \<mapsto> [''w'' \<mapsto> tn k (1 / sqrt (real (ncols x))) [ncols x, 2],
                             ''b'' \<mapsto> Vec [Finite 1, Finite 1]]]"
proof -
  let ?W = "tn k (1 / sqrt (real (ncols x))) [ncols x, 2]"
  obtain w where w: "?W = Mat w" "length (rows w) = ncols x" "ncols w = 2"
    using assms by (cases ?W) simp_all
  obtain xw where xw: "nd_dot (Mat x) (Mat w) = Inr xw"
      "nd_add xw (Vec [Finite 1, Finite 1]) = Inr (Mat (linear_out x w [Finite 1, Finite 1]))"
    using linear_layer [of x w "[Finite 1, Finite 1]"] w by auto
  have b: "replicate 2 (Finite 1) = [Finite 1, Finite 1]"
    by (simp add: numeral_2_eq_2)
  show ?thesis
    using w
    by (simp add: forward_linear1_init_def transform_init_def transform_with_state_init_def
        init_frame_def forward_fn_linear1_def
        MyLinear1_call_def MyLinear1_def in_module_def get_parameter_def entries_of_def
        TruncatedNormal_def ones_init_def b xw initial_state_def map_entries_empty
        del: nd_dot.simps)
qed

lemma tree_map_linear_params:
  "tree_map add_one (linear_params w b) = linear_params (mutated_w w) (mutated_b b)"
  by (simp add: tree_map_def linear_params_def mutated_w_def mutated_b_def
      map_entries_upd map_entries_empty)

lemma forward_mutated_apply_eq:
  assumes "length (rows w) = ncols x" and "ncols w = 2" and "length b = 2"
  shows "forward_without_rng_apply tn (tree_map add_one (linear_params w b)) x =
     Inr (Mat (linear_out x (mutated_w w) (mutated_b b)))"
proof -
  have "length (rows (mutated_w w)) = ncols x" "ncols (mutated_w w) = 2"
      "length (mutated_b b) = 2"
    using assms by (simp_all add: mutated_w_def mutated_b_def)
  then show ?thesis
    by (simp only: tree_map_linear_params forward_without_rng_apply_eq)
qed

text \<open>The recorded run: the mutated weights, and the outputs for \<open>sample_x\<close> before and
  after the mutation.\<close>

lemma upt_2: "[0..<2] = [0, Suc 0]"
  by (simp add: upt_rec)

lemma recorded_values_are_float32:
  "list_all (list_all is_f32) (rows recorded_w)"
  "list_all (list_all is_f32) (rows sample_x)"
  "list_all (list_all is_f32) (rows sample_x_2)"
  by (simp_all add: recorded_w_def sample_x_def sample_x_2_def is_f32_def f32_eval)

lemma mutated_recorded_w:
  "mutated_w recorded_w =
     \<lparr>ncols = 2,
      rows = [[Finite (5842635 / 8388608), Finite (3171691 / 2097152)],
              [Finite (566279 / 524288), Finite (5735287 / 8388608)],
              [Finite (3367327 / 2097152), Finite (6635683 / 4194304)]]\<rparr>"
  by (simp add: recorded_w_def mutated_w_def f32_eval)

lemma mutated_ones: "mutated_b [Finite 1, Finite 1] = [Finite 2, Finite 2]"
  by (simp add: mutated_b_def f32_eval)

lemma recorded_output:
  "linear_out sample_x recorded_w [Finite 1, Finite 1] =
     \<lparr>ncols = 2, rows = [[Finite (5607111 / 2097152), Finite (11014199 / 4194304)]]\<rparr>"
  by (simp add: linear_out_def f32_dot_def sample_x_def recorded_w_def upt_2 f32_eval)

lemma recorded_mutated_output:
  "linear_out sample_x (mutated_w recorded_w) (mutated_b [Finite 1, Finite 1]) =
     \<lparr>ncols = 2, rows = [[Finite (2535897 / 262144), Finite (5046791 / 524288)]]\<rparr>"
  by (simp add: mutated_recorded_w mutated_ones)
     (simp add: linear_out_def f32_dot_def sample_x_def upt_2 f32_eval)

text \<open>
  Claim C5, as amended. For an input with \<open>j\<close> features (\<open>j = 3\<close> in the notebook) and a
  sampler that returns the requested shape, \<open>init\<close> returns the mapping
  \<open>{'my_linear1': {'w': the draw of shape [j, 2], 'b': [1., 1.]}}\<close>. For a mapping with
  \<open>w\<close> of shape \<open>[j, 2]\<close> and \<open>b\<close> of shape \<open>[2]\<close>, \<open>apply\<close> returns \<open>x . w + b\<close> in \<open>float32\<close>
  whatever the key, and the run leaves the frame, and so the parameters, as they were;
  with every array incremented by one it returns \<open>x . (w + 1) + (b + 1)\<close>. For the recorded
  weights and \<open>sample_x = [[1., 2., 3.]]\<close> the output is
  \<open>[[2.6736788749694824, 2.6259896755218506]]\<close> (printed \<open>[[2.6736789 2.6259897]]\<close>) and
  the output of the mutated mapping is \<open>[[9.67367935180664, 9.62598991394043]]\<close> (printed
  \<open>[[9.673679 9.62599]]\<close>), a different one. (For \<open>sample_x_2\<close> the output is the recorded
  \<open>[[3.820442 4.960439] [4.967205 7.294889]]\<close>: the instance that follows the theorem.)
\<close>

theorem linear_module:
  "(shape (tn k (1 / sqrt (real (ncols x))) [ncols x, 2]) = [ncols x, 2] \<longrightarrow>
      forward_linear1_init tn (Some k) x =
        Inr [''my_linear1'' \<mapsto> [''w'' \<mapsto> tn k (1 / sqrt (real (ncols x))) [ncols x, 2],
                                ''b'' \<mapsto> Vec [Finite 1, Finite 1]]]) \<and>
   (wf_array2 x \<and> wf_array2 w \<and> length (rows w) = ncols x \<and> ncols w = 2 \<and> length b = 2 \<longrightarrow>
      forward_fn_linear1 tn x (apply_frame (linear_params w b) Map.empty rng) =
        Inr (Mat (linear_out x w b), apply_frame (linear_params w b) Map.empty rng) \<and>
      forward_linear1_apply tn (linear_params w b) rng x = Inr (Mat (linear_out x w b)) \<and>
      forward_without_rng_apply tn (linear_params w b) x = Inr (Mat (linear_out x w b)) \<and>
      forward_without_rng_apply tn (tree_map add_one (linear_params w b)) x =
        Inr (Mat (linear_out x (mutated_w w) (mutated_b b)))) \<and>
   forward_without_rng_apply tn (linear_params recorded_w [Finite 1, Finite 1]) sample_x =
     Inr (Mat \<lparr>ncols = 2,
               rows = [[Finite (5607111 / 2097152), Finite (11014199 / 4194304)]]\<rparr>) \<and>
   forward_without_rng_apply tn
       (tree_map add_one (linear_params recorded_w [Finite 1, Finite 1])) sample_x =
     Inr (Mat \<lparr>ncols = 2,
               rows = [[Finite (2535897 / 262144), Finite (5046791 / 524288)]]\<rparr>)"
proof (intro conjI impI)
  assume "shape (tn k (1 / sqrt (real (ncols x))) [ncols x, 2]) = [ncols x, 2]"
  then show "forward_linear1_init tn (Some k) x =
        Inr [''my_linear1'' \<mapsto> [''w'' \<mapsto> tn k (1 / sqrt (real (ncols x))) [ncols x, 2],
                                ''b'' \<mapsto> Vec [Finite 1, Finite 1]]]"
    by (rule forward_linear1_init_eq)
next
  assume a: "wf_array2 x \<and> wf_array2 w \<and> length (rows w) = ncols x \<and> ncols w = 2 \<and> length b = 2"
  then have d: "length (rows w) = ncols x" "ncols w = 2" "length b = 2"
    by simp_all
  show "forward_fn_linear1 tn x (apply_frame (linear_params w b) Map.empty rng) =
        Inr (Mat (linear_out x w b), apply_frame (linear_params w b) Map.empty rng)"
    by (simp add: apply_frame_def linear_params_def forward_fn_linear1_frozen [OF d])
  show "forward_linear1_apply tn (linear_params w b) rng x = Inr (Mat (linear_out x w b))"
    by (simp add: linear_params_def forward_linear1_apply_eq [OF d])
  show "forward_without_rng_apply tn (linear_params w b) x = Inr (Mat (linear_out x w b))"
    by (rule forward_without_rng_apply_eq [OF d])
  show "forward_without_rng_apply tn (tree_map add_one (linear_params w b)) x =
        Inr (Mat (linear_out x (mutated_w w) (mutated_b b)))"
    by (rule forward_mutated_apply_eq [OF d])
next
  have d: "length (rows recorded_w) = ncols sample_x" "ncols recorded_w = 2"
      "length [Finite 1, Finite 1] = 2"
    by (simp_all add: recorded_w_def sample_x_def)
  show "forward_without_rng_apply tn (linear_params recorded_w [Finite 1, Finite 1]) sample_x =
     Inr (Mat \<lparr>ncols = 2,
               rows = [[Finite (5607111 / 2097152), Finite (11014199 / 4194304)]]\<rparr>)"
    by (simp only: forward_without_rng_apply_eq [OF d] recorded_output)
  show "forward_without_rng_apply tn
       (tree_map add_one (linear_params recorded_w [Finite 1, Finite 1])) sample_x =
     Inr (Mat \<lparr>ncols = 2,
               rows = [[Finite (2535897 / 262144), Finite (5046791 / 524288)]]\<rparr>)"
    by (simp only: forward_mutated_apply_eq [OF d] recorded_mutated_output)
qed

theorem linear_module_witness:
  "shape ((\<lambda>(k :: i32 \<times> i32) stddev shp. Mat \<lparr>ncols = shp ! 1,
                                 rows = replicate (shp ! 0) (replicate (shp ! 1) (Finite 0))\<rparr>)
            (0, 42) (1 / sqrt (real (ncols sample_x_2))) [ncols sample_x_2, 2]) =
     [ncols sample_x_2, 2] \<and>
   wf_array2 sample_x_2 \<and> wf_array2 recorded_w \<and>
   length (rows recorded_w) = ncols sample_x_2 \<and> ncols recorded_w = 2 \<and>
   forward_linear1_init
       (\<lambda>(k :: i32 \<times> i32) stddev shp. Mat \<lparr>ncols = shp ! 1,
                              rows = replicate (shp ! 0) (replicate (shp ! 1) (Finite 0))\<rparr>)
       (Some (0, 42)) sample_x_2 =
     Inr [''my_linear1'' \<mapsto>
            [''w'' \<mapsto> Mat \<lparr>ncols = 2,
                         rows = [[Finite 0, Finite 0], [Finite 0, Finite 0], [Finite 0, Finite 0]]\<rparr>,
             ''b'' \<mapsto> Vec [Finite 1, Finite 1]]] \<and>
   forward_linear1_apply
       (\<lambda>(k :: i32 \<times> i32) stddev shp. Mat \<lparr>ncols = shp ! 1,
                              rows = replicate (shp ! 0) (replicate (shp ! 1) (Finite 0))\<rparr>)
       (linear_params recorded_w [Finite 1, Finite 1]) (Some (0, 42)) sample_x_2 =
     Inr (Mat \<lparr>ncols = 2,
               rows = [[Finite (16024095 / 4194304), Finite (10402795 / 2097152)],
                       [Finite (1302123 / 262144), Finite (15298491 / 2097152)]]\<rparr>) \<and>
   forward_without_rng_apply
       (\<lambda>(k :: i32 \<times> i32) stddev shp. Mat \<lparr>ncols = shp ! 1,
                              rows = replicate (shp ! 0) (replicate (shp ! 1) (Finite 0))\<rparr>)
       (tree_map add_one (linear_params recorded_w [Finite 1, Finite 1])) sample_x_2 =
     Inr (Mat \<lparr>ncols = 2,
               rows = [[Finite (2597905 / 131072), Finite (5494653 / 262144)],
                       [Finite (15711447 / 524288), Finite (4232955 / 131072)]]\<rparr>)"
proof -
  let ?tn = "\<lambda>(k :: i32 \<times> i32) (stddev :: real) shp.
      Mat \<lparr>ncols = shp ! 1, rows = replicate (shp ! 0) (replicate (shp ! 1) (Finite 0))\<rparr>"
  let ?k = "(0, 42) :: i32 \<times> i32"
  have sh: "shape (?tn ?k (1 / sqrt (real (ncols sample_x_2))) [ncols sample_x_2, 2]) =
      [ncols sample_x_2, 2]"
    by simp
  have wf: "wf_array2 sample_x_2 \<and> wf_array2 recorded_w \<and>
      length (rows recorded_w) = ncols sample_x_2 \<and> ncols recorded_w = 2 \<and>
      length [Finite 1, Finite 1] = 2"
    by (simp add: wf_array2_def recorded_w_def sample_x_2_def)
  have draw: "?tn ?k (1 / sqrt (real (ncols sample_x_2))) [ncols sample_x_2, 2] =
      Mat \<lparr>ncols = 2,
           rows = [[Finite 0, Finite 0], [Finite 0, Finite 0], [Finite 0, Finite 0]]\<rparr>"
    by (simp add: sample_x_2_def numeral_2_eq_2 numeral_3_eq_3)
  have out: "linear_out sample_x_2 recorded_w [Finite 1, Finite 1] =
      \<lparr>ncols = 2,
       rows = [[Finite (16024095 / 4194304), Finite (10402795 / 2097152)],
               [Finite (1302123 / 262144), Finite (15298491 / 2097152)]]\<rparr>"
    by (simp add: linear_out_def f32_dot_def sample_x_2_def recorded_w_def upt_2 f32_eval)
  have out': "linear_out sample_x_2 (mutated_w recorded_w) (mutated_b [Finite 1, Finite 1]) =
      \<lparr>ncols = 2,
       rows = [[Finite (2597905 / 131072), Finite (5494653 / 262144)],
               [Finite (15711447 / 524288), Finite (4232955 / 131072)]]\<rparr>"
    by (simp add: mutated_recorded_w mutated_ones)
       (simp add: linear_out_def f32_dot_def sample_x_2_def upt_2 f32_eval)
  from linear_module [of ?tn ?k sample_x_2 recorded_w "[Finite 1, Finite 1]" "Some ?k"] sh wf
  have "forward_linear1_init ?tn (Some ?k) sample_x_2 =
        Inr [''my_linear1'' \<mapsto>
               [''w'' \<mapsto> ?tn ?k (1 / sqrt (real (ncols sample_x_2))) [ncols sample_x_2, 2],
                ''b'' \<mapsto> Vec [Finite 1, Finite 1]]]"
    and "forward_linear1_apply ?tn (linear_params recorded_w [Finite 1, Finite 1])
        (Some ?k) sample_x_2 = Inr (Mat (linear_out sample_x_2 recorded_w [Finite 1, Finite 1]))"
    and "forward_without_rng_apply ?tn
        (tree_map add_one (linear_params recorded_w [Finite 1, Finite 1])) sample_x_2 =
        Inr (Mat (linear_out sample_x_2 (mutated_w recorded_w) (mutated_b [Finite 1, Finite 1])))"
    by blast+
  then have run: "forward_linear1_init ?tn (Some ?k) sample_x_2 =
        Inr [''my_linear1'' \<mapsto>
               [''w'' \<mapsto> Mat \<lparr>ncols = 2,
                  rows = [[Finite 0, Finite 0], [Finite 0, Finite 0], [Finite 0, Finite 0]]\<rparr>,
                ''b'' \<mapsto> Vec [Finite 1, Finite 1]]]"
      "forward_linear1_apply ?tn (linear_params recorded_w [Finite 1, Finite 1])
        (Some ?k) sample_x_2 =
        Inr (Mat \<lparr>ncols = 2,
               rows = [[Finite (16024095 / 4194304), Finite (10402795 / 2097152)],
                       [Finite (1302123 / 262144), Finite (15298491 / 2097152)]]\<rparr>)"
      "forward_without_rng_apply ?tn
        (tree_map add_one (linear_params recorded_w [Finite 1, Finite 1])) sample_x_2 =
        Inr (Mat \<lparr>ncols = 2,
               rows = [[Finite (2597905 / 131072), Finite (5494653 / 262144)],
                       [Finite (15711447 / 524288), Finite (4232955 / 131072)]]\<rparr>)"
    by (simp_all only: draw out out')
  have w: "wf_array2 sample_x_2" "wf_array2 recorded_w"
      "length (rows recorded_w) = ncols sample_x_2" "ncols recorded_w = 2"
    using wf by simp_all
  show ?thesis
    by (simp only: sh w run simp_thms)
qed

text \<open>
  Claim C5 as stated lets the mutated mapping change the output for every input. With
  zero weights and bias \<open>[1., 1.]\<close>, the input \<open>[[-1., 0., 0.]]\<close> gives \<open>[[1., 1.]]\<close>
  before and after the mutation (the sum \<open>-1 + 2\<close> replaces \<open>0 + 1\<close>), and so does the input
  \<open>[[-0.99999994, 0., 0.]]\<close>, whose mutated sum \<open>1 + 2^-24\<close> is rounded to \<open>1\<close>.
\<close>

theorem mutated_params_same_output:
  "forward_without_rng_apply (\<lambda>(k :: i32 \<times> i32) stddev shp. Float32 (Finite 0))
       (linear_params
          \<lparr>ncols = 2, rows = [[Finite 0, Finite 0], [Finite 0, Finite 0], [Finite 0, Finite 0]]\<rparr>
          [Finite 1, Finite 1])
       \<lparr>ncols = 3, rows = [[Finite (- 1), Finite 0, Finite 0]]\<rparr> =
     Inr (Mat \<lparr>ncols = 2, rows = [[Finite 1, Finite 1]]\<rparr>) \<and>
   forward_without_rng_apply (\<lambda>(k :: i32 \<times> i32) stddev shp. Float32 (Finite 0))
       (tree_map add_one
          (linear_params
             \<lparr>ncols = 2, rows = [[Finite 0, Finite 0], [Finite 0, Finite 0], [Finite 0, Finite 0]]\<rparr>
             [Finite 1, Finite 1]))
       \<lparr>ncols = 3, rows = [[Finite (- 1), Finite 0, Finite 0]]\<rparr> =
     Inr (Mat \<lparr>ncols = 2, rows = [[Finite 1, Finite 1]]\<rparr>) \<and>
   forward_without_rng_apply (\<lambda>(k :: i32 \<times> i32) stddev shp. Float32 (Finite 0))
       (linear_params
          \<lparr>ncols = 2, rows = [[Finite 0, Finite 0], [Finite 0, Finite 0], [Finite 0, Finite 0]]\<rparr>
          [Finite 1, Finite 1])
       \<lparr>ncols = 3, rows = [[Finite (- 16777215 / 16777216), Finite 0, Finite 0]]\<rparr> =
     Inr (Mat \<lparr>ncols = 2, rows = [[Finite 1, Finite 1]]\<rparr>) \<and>
   forward_without_rng_apply (\<lambda>(k :: i32 \<times> i32) stddev shp. Float32 (Finite 0))
       (tree_map add_one
          (linear_params
             \<lparr>ncols = 2, rows = [[Finite 0, Finite 0], [Finite 0, Finite 0], [Finite 0, Finite 0]]\<rparr>
             [Finite 1, Finite 1]))
       \<lparr>ncols = 3, rows = [[Finite (- 16777215 / 16777216), Finite 0, Finite 0]]\<rparr> =
     Inr (Mat \<lparr>ncols = 2, rows = [[Finite 1, Finite 1]]\<rparr>)"
proof -
  let ?tn = "\<lambda>(k :: i32 \<times> i32) (stddev :: real) (shp :: nat list). Float32 (Finite 0)"
  let ?x = "\<lparr>ncols = 3, rows = [[Finite (- 1), Finite 0, Finite 0]]\<rparr>"
  let ?y = "\<lparr>ncols = 3, rows = [[Finite (- 16777215 / 16777216), Finite 0, Finite 0]]\<rparr>"
  let ?w = "\<lparr>ncols = 2, rows = [[Finite 0, Finite 0], [Finite 0, Finite 0], [Finite 0, Finite 0]]\<rparr>"
  let ?b = "[Finite 1, Finite 1]"
  have d: "length (rows ?w) = ncols ?x" "ncols ?w = 2" "length ?b = 2"
    by simp_all
  have d': "length (rows ?w) = ncols ?y"
    by simp
  have w': "mutated_w ?w =
      \<lparr>ncols = 2, rows = [[Finite 1, Finite 1], [Finite 1, Finite 1], [Finite 1, Finite 1]]\<rparr>"
    by (simp add: mutated_w_def f32_eval)
  have out: "linear_out ?x ?w ?b = \<lparr>ncols = 2, rows = [[Finite 1, Finite 1]]\<rparr>"
    by (simp add: linear_out_def f32_dot_def upt_2 f32_eval)
  have out': "linear_out ?x (mutated_w ?w) (mutated_b ?b) =
      \<lparr>ncols = 2, rows = [[Finite 1, Finite 1]]\<rparr>"
    by (simp add: w' mutated_ones) (simp add: linear_out_def f32_dot_def upt_2 f32_eval)
  have outy: "linear_out ?y ?w ?b = \<lparr>ncols = 2, rows = [[Finite 1, Finite 1]]\<rparr>"
    by (simp add: linear_out_def f32_dot_def upt_2 f32_eval)
  have outy': "linear_out ?y (mutated_w ?w) (mutated_b ?b) =
      \<lparr>ncols = 2, rows = [[Finite 1, Finite 1]]\<rparr>"
    by (simp add: w' mutated_ones) (simp add: linear_out_def f32_dot_def upt_2 f32_eval)
  show ?thesis
    by (simp only: forward_without_rng_apply_eq [OF d] forward_mutated_apply_eq [OF d]
        forward_without_rng_apply_eq [OF d' d(2,3)] forward_mutated_apply_eq [OF d' d(2,3)]
        out out' outy outy')
qed

end
